theory Spec2Isabelle
  imports Complex_Main "HOL-Library.AList"
begin

section \<open>Strings: the three string operations the processor uses\<close>

text \<open>
  Layer names are Python strings. The processor only ever lower-cases them
  (\<^verbatim>\<open>str.lower\<close>), trims them (\<^verbatim>\<open>str.strip\<close> with no argument) and tests
  for a substring (\<^verbatim>\<open>'metalware' in s\<close>). Names are modelled as \<^typ>\<open>string\<close>,
  a character standing for the code point of the same number, 0 to 255.
  On these code points \<^verbatim>\<open>str.lower\<close> maps the letters A to Z and the
  capital letters 192 to 222 other than the multiplication sign 215 to the
  letter 32 places further on, and leaves every other character alone; the
  characters \<^verbatim>\<open>str.strip\<close> removes are those for which \<^verbatim>\<open>str.isspace\<close>
  holds: tab, line feed, vertical tab, form feed, carriage return, the four
  separators 28 to 31, the blank, the next-line control 133 and the no-break
  space 160.
\<close>

definition upper_letters :: string where
  "upper_letters =
     ''ABCDEFGHIJKLMNOPQRSTUVWXYZ'' @
     [CHR 0xC0, CHR 0xC1, CHR 0xC2, CHR 0xC3, CHR 0xC4, CHR 0xC5,
     CHR 0xC6, CHR 0xC7, CHR 0xC8, CHR 0xC9, CHR 0xCA, CHR 0xCB,
     CHR 0xCC, CHR 0xCD, CHR 0xCE, CHR 0xCF, CHR 0xD0, CHR 0xD1,
     CHR 0xD2, CHR 0xD3, CHR 0xD4, CHR 0xD5, CHR 0xD6, CHR 0xD8,
     CHR 0xD9, CHR 0xDA, CHR 0xDB, CHR 0xDC, CHR 0xDD, CHR 0xDE]"

definition lower_letters :: string where
  "lower_letters =
     ''abcdefghijklmnopqrstuvwxyz'' @
     [CHR 0xE0, CHR 0xE1, CHR 0xE2, CHR 0xE3, CHR 0xE4, CHR 0xE5,
     CHR 0xE6, CHR 0xE7, CHR 0xE8, CHR 0xE9, CHR 0xEA, CHR 0xEB,
     CHR 0xEC, CHR 0xED, CHR 0xEE, CHR 0xEF, CHR 0xF0, CHR 0xF1,
     CHR 0xF2, CHR 0xF3, CHR 0xF4, CHR 0xF5, CHR 0xF6, CHR 0xF8,
     CHR 0xF9, CHR 0xFA, CHR 0xFB, CHR 0xFC, CHR 0xFD, CHR 0xFE]"

definition lower_char :: "char \<Rightarrow> char" where
  "lower_char c =
     (case map_of (zip upper_letters lower_letters) c of
        Some d \<Rightarrow> d
      | None \<Rightarrow> c)"

definition lower :: "string \<Rightarrow> string" where
  "lower s = map lower_char s"

definition is_space :: "char \<Rightarrow> bool" where
  "is_space c =
     (c \<in> set [CHR 0x09, CHR 0x0A, CHR 0x0B, CHR 0x0C, CHR 0x0D,
                CHR 0x1C, CHR 0x1D, CHR 0x1E, CHR 0x1F, CHR '' '',
                CHR 0x85, CHR 0xA0])"

definition strip :: "string \<Rightarrow> string" where
  "strip s = rev (dropWhile is_space (rev (dropWhile is_space s)))"

fun starts_with :: "string \<Rightarrow> string \<Rightarrow> bool" where
  "starts_with [] s = True"
| "starts_with (p # ps) [] = False"
| "starts_with (p # ps) (c # cs) = (p = c \<and> starts_with ps cs)"

fun contains :: "string \<Rightarrow> string \<Rightarrow> bool" where
  "contains p [] = (p = [])"
| "contains p (c # cs) = (starts_with p (c # cs) \<or> contains p cs)"

section \<open>The layer tree\<close>

text \<open>
  The parsed document is a sequence of top-level layers, in the order in which
  the parser iterates them (\<^verbatim>\<open>for layer in psd\<close>). A layer is a pixel layer or
  a group holding its own ordered sequence of children. Every layer carries a
  name, a visibility flag, an opacity and an offset; opacity is a number that
  the source compares with \<^verbatim>\<open>1.0\<close>, so it is kept as a rational.
  Clipping layers are not distinguished from ordinary children.
\<close>

datatype layer =
    PixelLayer (name: string) (visible: bool) (opacity: rat) (offset: "int \<times> int")
  | Group (name: string) (visible: bool) (opacity: rat) (offset: "int \<times> int")
      (layers: "layer list")

record document =
  doc_width :: int
  doc_height :: int
  doc_layers :: "layer list"

fun is_group :: "layer \<Rightarrow> bool" where
  "is_group (Group n v a off ls) = True"
| "is_group (PixelLayer n v a off) = False"

fun children :: "layer \<Rightarrow> layer list" where
  "children (Group n v a off ls) = ls"
| "children (PixelLayer n v a off) = []"

text \<open>
  \<^verbatim>\<open>psd.descendants()\<close>: every layer of the tree, depth first, a group before
  its children. \<open>parented\<close> is the same traversal with each layer paired with
  the name of its parent (\<^verbatim>\<open>layer.parent.name\<close>); the parent of a top-level
  layer is the document itself, whose name is \<^verbatim>\<open>Root\<close>.
\<close>

fun descendants :: "layer list \<Rightarrow> layer list" where
  "descendants [] = []"
| "descendants (PixelLayer n v a off # rest) = PixelLayer n v a off # descendants rest"
| "descendants (Group n v a off ls # rest) =
     Group n v a off ls # (descendants ls @ descendants rest)"

fun parented :: "string \<Rightarrow> layer list \<Rightarrow> (string \<times> layer) list" where
  "parented p [] = []"
| "parented p (PixelLayer n v a off # rest) = (p, PixelLayer n v a off) # parented p rest"
| "parented p (Group n v a off ls # rest) =
     (p, Group n v a off ls) # (parented n ls @ parented p rest)"

definition root_name :: string where
  "root_name = ''Root''"

section \<open>Layer tree accessor\<close>

text \<open>\<^verbatim>\<open>_get_group_by_name\<close>: the first top-level group with exactly this name.\<close>

definition get_group_by_name :: "layer list \<Rightarrow> string \<Rightarrow> layer option" where
  "get_group_by_name psd group_name = find (\<lambda>l. is_group l \<and> name l = group_name) psd"

text \<open>
  \<^verbatim>\<open>_get_layer_colors\<close>: the loop appends the lower-cased, trimmed name of each
  child with a non-empty name, unless the result is empty or already collected.
  An absent group gives the empty list, and so does a group without children
  (\<^verbatim>\<open>if not group\<close> is true of an empty group).
\<close>

fun collect_colors :: "layer list \<Rightarrow> string list \<Rightarrow> string list" where
  "collect_colors [] colors = colors"
| "collect_colors (l # ls) colors =
     (if name l \<noteq> [] then
        (let color_name = strip (lower (name l)) in
         if color_name \<noteq> [] \<and> color_name \<notin> set colors
         then collect_colors ls (colors @ [color_name])
         else collect_colors ls colors)
      else collect_colors ls colors)"

definition get_layer_colors :: "layer list \<Rightarrow> string \<Rightarrow> string list" where
  "get_layer_colors psd group_name =
     (case get_group_by_name psd group_name of
        None \<Rightarrow> []
      | Some grp \<Rightarrow> if children grp = [] then [] else collect_colors (children grp) [])"

text \<open>
  \<^verbatim>\<open>_validate_color_pairs\<close>: a dictionary filled in the order of the camera
  colours. A Python dictionary keeps insertion order and overwrites in place,
  which is what \<^const>\<open>AList.update\<close> does on an association list.
\<close>

fun color_pairs_loop ::
  "string list \<Rightarrow> string list \<Rightarrow> string list \<Rightarrow> (string \<times> bool) list \<Rightarrow> (string \<times> bool) list"
where
  "color_pairs_loop [] colors_group_colors base_colors valid_colors = valid_colors"
| "color_pairs_loop (color # rest) colors_group_colors base_colors valid_colors =
     (let has_color = color \<in> set colors_group_colors;
          has_base = color \<in> set base_colors
      in color_pairs_loop rest colors_group_colors base_colors
           (AList.update color (has_color \<and> has_base) valid_colors))"

definition validate_color_pairs :: "layer list \<Rightarrow> (string \<times> bool) list" where
  "validate_color_pairs psd =
     (let camera_colors = get_layer_colors psd ''camera'';
          colors_group_colors = get_layer_colors psd ''colors'';
          base_colors = get_layer_colors psd ''base''
      in color_pairs_loop camera_colors colors_group_colors base_colors [])"

definition valid_color_names :: "layer list \<Rightarrow> string list" where
  "valid_color_names psd = map fst (filter snd (validate_color_pairs psd))"

section \<open>Structure validator\<close>

datatype log_entry = Error string | Warning string

definition required_groups :: "string list" where
  "required_groups = [''@main'', ''camera'', ''colors'', ''base'', ''bg'']"

text \<open>
  \<^verbatim>\<open>_validate_psd_structure\<close> returns its verdict; the model returns the lines
  it logs as well. The first required name that is missing ends the check with
  an error. The metalware test only runs when the \<^verbatim>\<open>@main\<close> group is truthy,
  that is, has at least one child.
\<close>

definition validate_psd_structure :: "layer list \<Rightarrow> bool \<times> log_entry list" where
  "validate_psd_structure psd =
     (let group_names = map name (filter is_group psd) in
      case find (\<lambda>required_group. required_group \<notin> set group_names) required_groups of
        Some required_group \<Rightarrow>
          (False, [Error (''Missing required group: '' @ required_group)])
      | None \<Rightarrow>
          (case get_group_by_name psd ''@main'' of
             Some main_group \<Rightarrow>
               if children main_group \<noteq> [] \<and>
                  \<not> list_ex (\<lambda>layer. contains ''metalware'' (lower (name layer)))
                      (children main_group)
               then (True, [Warning ''@main group should contain metalware layer''])
               else (True, [])
           | None \<Rightarrow> (True, [])))"

section \<open>Visibility resolver\<close>

text \<open>
  \<^verbatim>\<open>_set_layer_visibility_fixed\<close>. The colour names are read from the
  processor's own document (\<^verbatim>\<open>self.psd\<close>); the flags are written into the
  freshly opened copy \<^verbatim>\<open>psd\<close>.
\<close>

definition all_colors :: "layer list \<Rightarrow> string set" where
  "all_colors self_psd =
     set (get_layer_colors self_psd ''camera'') \<union>
     set (get_layer_colors self_psd ''colors'') \<union>
     set (get_layer_colors self_psd ''base'')"

fun set_visible :: "bool \<Rightarrow> layer \<Rightarrow> layer" where
  "set_visible b (PixelLayer n v a off) = PixelLayer n b a off"
| "set_visible b (Group n v a off ls) = Group n b a off ls"

text \<open>Step 1: the five container groups at top level are shown.\<close>

definition show_containers :: "layer list \<Rightarrow> layer list" where
  "show_containers psd =
     map (\<lambda>layer.
            if is_group layer \<and>
               strip (lower (name layer)) \<in> set [''bg'', ''base'', ''colors'', ''camera'', ''@main'']
            then set_visible True layer else layer) psd"

text \<open>
  Step 2, the body of the loop over \<^verbatim>\<open>psd.descendants()\<close>: the flag a layer
  receives, from the name of its parent and its own name. The branches are in
  the order of the source; each ends in \<^verbatim>\<open>continue\<close>.
\<close>

definition layer_flag :: "string set \<Rightarrow> string \<Rightarrow> string \<Rightarrow> string \<Rightarrow> bool" where
  "layer_flag colors target_color parent nm =
     (let layer_name = strip (lower nm);
          parent_name = lower parent
      in
      if parent_name = ''bg'' then True
      else if parent_name = ''base'' then
        (if layer_name = lower target_color then True
         else if layer_name \<in> colors then False
         else True)
      else if parent_name = ''colors'' then
        (if layer_name = lower target_color then True
         else if layer_name \<in> colors then False
         else True)
      else if parent_name = ''camera'' then
        (if layer_name = lower target_color then True
         else if layer_name \<in> colors then False
         else True)
      else if parent_name = ''@main'' then
        (if layer_name \<in> colors then
           (if layer_name = lower target_color then True else False)
         else True)
      else if parent_name \<in> colors then
        (if parent_name = lower target_color then True else False)
      else True)"

text \<open>
  The loop visits every layer of the tree once and assigns its flag. The body
  reads names only, and names and structure are never written, so the flag a
  layer receives does not depend on the visits before it. \<open>p\<close> is the name of
  the parent of the layers of the list.
\<close>

fun apply_visibility :: "string set \<Rightarrow> string \<Rightarrow> string \<Rightarrow> layer list \<Rightarrow> layer list" where
  "apply_visibility colors target_color p [] = []"
| "apply_visibility colors target_color p (PixelLayer n v a off # rest) =
     PixelLayer n (layer_flag colors target_color p n) a off
       # apply_visibility colors target_color p rest"
| "apply_visibility colors target_color p (Group n v a off ls # rest) =
     Group n (layer_flag colors target_color p n) a off
         (apply_visibility colors target_color n ls)
       # apply_visibility colors target_color p rest"

definition set_layer_visibility_fixed :: "layer list \<Rightarrow> layer list \<Rightarrow> string \<Rightarrow> layer list" where
  "set_layer_visibility_fixed self_psd psd target_color =
     apply_visibility (all_colors self_psd) target_color root_name (show_containers psd)"

text \<open>
  \<^verbatim>\<open>_validate_visibility_settings\<close>: the two counters, over the traversal
  with parents, and the verdict.
\<close>

fun count_visible ::
  "string set \<Rightarrow> string \<Rightarrow> (string \<times> layer) list \<Rightarrow> nat \<times> nat \<Rightarrow> nat \<times> nat"
where
  "count_visible colors target_color [] counts = counts"
| "count_visible colors target_color ((parent, layer) # rest) (target_n, other_n) =
     (let layer_name = strip (lower (name layer));
          parent_name = lower parent
      in
      if parent_name \<in> set [''colors'', ''camera'', ''base''] \<and> layer_name \<in> colors then
        (if visible layer then
           (if layer_name = lower target_color
            then count_visible colors target_color rest (target_n + 1, other_n)
            else count_visible colors target_color rest (target_n, other_n + 1))
         else count_visible colors target_color rest (target_n, other_n))
      else if parent_name \<in> colors then
        (if visible layer then
           (if parent_name = lower target_color
            then count_visible colors target_color rest (target_n + 1, other_n)
            else count_visible colors target_color rest (target_n, other_n + 1))
         else count_visible colors target_color rest (target_n, other_n))
      else count_visible colors target_color rest (target_n, other_n))"

definition validate_visibility_settings :: "layer list \<Rightarrow> layer list \<Rightarrow> string \<Rightarrow> bool" where
  "validate_visibility_settings self_psd psd target_color =
     (case count_visible (all_colors self_psd) target_color (parented root_name psd) (0, 0) of
        (target_color_layers_visible, other_color_layers_visible) \<Rightarrow>
          target_color_layers_visible > 0 \<and> other_color_layers_visible = 0)"

section \<open>Raster images and the external collaborators\<close>

text \<open>
  Pixel contents are produced by the parser and the imaging library, so an image
  is kept as what the processor knows of it: mode, size, what it started from
  and the drawing calls the processor made on it, in order. A layer image is
  the result of \<^verbatim>\<open>layer.topil()\<close>; \<open>li_alpha_scale\<close> is the factor of
  \<^verbatim>\<open>alpha.point(lambda p: p * layer.opacity)\<close> once \<^verbatim>\<open>putalpha\<close> has
  replaced the alpha channel.
\<close>

record layer_image =
  li_mode :: string
  li_width :: int
  li_height :: int
  li_pixels :: nat
  li_alpha_scale :: "rat option"

datatype font = Arial24 | DefaultFont

datatype draw_op =
    Paste layer_image "int \<times> int \<times> int \<times> int" "layer_image option"
  | DrawText "int \<times> int" string font
  | Convert string

datatype backing = Composited nat | Blank "nat \<times> nat \<times> nat"

record image =
  img_mode :: string
  img_width :: int
  img_height :: int
  img_backing :: backing
  img_ops :: "draw_op list"

datatype exn = Raised string

record saved =
  saved_file_size :: nat
  saved_image_hash :: string
  saved_file_hash :: string

text \<open>
  What the collaborators answer. Each call that the source guards with
  \<^verbatim>\<open>try\<close> may raise:
  \<^item> \<open>open_psd\<close>: \<^verbatim>\<open>PSDImage.open\<close> in \<^verbatim>\<open>load_psd\<close>;
  \<^item> \<open>open_fresh\<close>: \<^verbatim>\<open>PSDImage.open\<close> at the start of a render;
  \<^item> \<open>composite\<close>: \<^verbatim>\<open>psd.composite(layer_filter=...)\<close> on the document
    with its resolved flags, an image or \<^verbatim>\<open>None\<close>;
  \<^item> \<open>image_new_error\<close>: whether \<^verbatim>\<open>Image.new\<close> refuses a size;
  \<^item> \<open>topil\<close>: \<^verbatim>\<open>layer.topil()\<close>, an image or \<^verbatim>\<open>None\<close>;
  \<^item> \<open>truetype_arial\<close>: whether \<^verbatim>\<open>ImageFont.truetype("arial.ttf", 24)\<close>
    succeeds;
  \<^item> \<open>save_variant\<close>: hashing the pixels, saving the file, reading it back
    and taking its size, for an output path and an image;
  \<^item> \<open>reopen_saved\<close>: \<^verbatim>\<open>Image.open\<close> of the first variant in the duplicate
    check, which no \<^verbatim>\<open>try\<close> guards.
\<close>

record env =
  open_psd :: "exn + document"
  open_fresh :: "exn + document"
  composite :: "document \<Rightarrow> exn + image option"
  image_new_error :: "int \<times> int \<Rightarrow> exn option"
  topil :: "layer \<Rightarrow> exn + layer_image option"
  truetype_arial :: bool
  save_variant :: "string \<Rightarrow> image \<Rightarrow> exn + saved"
  reopen_saved :: "string \<Rightarrow> exn + unit"

definition image_new :: "env \<Rightarrow> string \<Rightarrow> int \<times> int \<Rightarrow> nat \<times> nat \<times> nat \<Rightarrow> exn + image" where
  "image_new e m sz fill =
     (case image_new_error e sz of
        Some x \<Rightarrow> Inl x
      | None \<Rightarrow>
          Inr \<lparr>img_mode = m, img_width = fst sz, img_height = snd sz,
               img_backing = Blank fill, img_ops = []\<rparr>)"

text \<open>
  A drawing call (\<^verbatim>\<open>paste\<close>, \<^verbatim>\<open>draw.text\<close>, \<^verbatim>\<open>convert\<close>) is recorded on
  the image; as in the imaging library, it leaves width and height as they
  are.
\<close>

definition draw :: "draw_op \<Rightarrow> image \<Rightarrow> image" where
  "draw op im = im\<lparr>img_ops := img_ops im @ [op]\<rparr>"

section \<open>Compositor\<close>

text \<open>
  The loop of the manual flatten over \<^verbatim>\<open>psd.descendants(include_clip=True)\<close>.
  A layer whose \<^verbatim>\<open>topil\<close> raises is skipped with a warning, as is one without
  an image.
\<close>

fun flatten_loop :: "env \<Rightarrow> layer list \<Rightarrow> image \<Rightarrow> image" where
  "flatten_loop e [] rendered_image = rendered_image"
| "flatten_loop e (layer # rest) rendered_image =
     (if visible layer then
        (case topil e layer of
           Inl x \<Rightarrow> flatten_loop e rest rendered_image
         | Inr None \<Rightarrow> flatten_loop e rest rendered_image
         | Inr (Some img0) \<Rightarrow>
             (let layer_img =
                    (if opacity layer < 1 \<and> li_mode img0 = ''RGBA''
                     then img0\<lparr>li_alpha_scale := Some (opacity layer)\<rparr> else img0);
                  left = fst (offset layer);
                  top = snd (offset layer);
                  right = left + li_width layer_img;
                  bottom = top + li_height layer_img
              in
              if li_mode layer_img = ''RGBA''
              then flatten_loop e rest
                     (draw (Paste layer_img (left, top, right, bottom) (Some layer_img))
                        rendered_image)
              else flatten_loop e rest
                     (draw (Paste layer_img (left, top, right, bottom) None) rendered_image)))
      else flatten_loop e rest rendered_image)"

definition usable :: "image \<Rightarrow> bool" where
  "usable im = (img_width im > 1 \<and> img_height im > 1)"

text \<open>First tier: the native composite, kept only when it is an image with both sides above 1.\<close>

definition native_composite :: "env \<Rightarrow> document \<Rightarrow> image option" where
  "native_composite e psd =
     (case composite e psd of
        Inl x \<Rightarrow> None
      | Inr None \<Rightarrow> None
      | Inr (Some rendered_image) \<Rightarrow>
          if usable rendered_image then Some rendered_image else None)"

text \<open>Second tier: the manual flatten on a white canvas of the size of the document.\<close>

definition manual_flatten :: "env \<Rightarrow> document \<Rightarrow> image option" where
  "manual_flatten e psd =
     (case image_new e ''RGB'' (doc_width psd, doc_height psd) (255, 255, 255) of
        Inl x \<Rightarrow> None
      | Inr canvas \<Rightarrow>
          (let rendered_image = flatten_loop e (descendants (doc_layers psd)) canvas in
           if usable rendered_image then Some rendered_image else None))"

text \<open>Third tier: the red placeholder with its two lines of text.\<close>

definition debug_image :: "env \<Rightarrow> string \<Rightarrow> bool \<Rightarrow> exn + image" where
  "debug_image e color_name validation_passed =
     (case image_new e ''RGB'' (800, 600) (255, 0, 0) of
        Inl x \<Rightarrow> Inl x
      | Inr debug_img \<Rightarrow>
          (let font = (if truetype_arial e then Arial24 else DefaultFont) in
           Inr (draw (DrawText (10, 50)
                        (''Validation: '' @ (if validation_passed then ''PASSED'' else ''FAILED''))
                        font)
                  (draw (DrawText (10, 10) (''Render failed for: '' @ color_name) font)
                     debug_img))))"

text \<open>
  \<^verbatim>\<open>_render_layer_combination_fixed\<close>. An exception outside the inner
  \<^verbatim>\<open>try\<close> blocks is logged and raised again, so it is the result.
\<close>

definition render_layer_combination_fixed :: "env \<Rightarrow> layer list \<Rightarrow> string \<Rightarrow> exn + image" where
  "render_layer_combination_fixed e self_psd color_name =
     (case open_fresh e of
        Inl x \<Rightarrow> Inl x
      | Inr psd0 \<Rightarrow>
          (let psd = psd0\<lparr>doc_layers :=
                       set_layer_visibility_fixed self_psd (doc_layers psd0) color_name\<rparr>;
               validation_passed =
                 validate_visibility_settings self_psd (doc_layers psd) color_name;
               tier1 = native_composite e psd;
               tier2 = (case tier1 of None \<Rightarrow> manual_flatten e psd | Some im \<Rightarrow> Some im)
           in
           case tier2 of
             None \<Rightarrow> debug_image e color_name validation_passed
           | Some rendered_image \<Rightarrow>
               if img_mode rendered_image \<noteq> ''RGB''
               then Inr (draw (Convert ''RGB'') (rendered_image\<lparr>img_mode := ''RGB''\<rparr>))
               else Inr rendered_image))"

definition render_layer_combination :: "env \<Rightarrow> layer list \<Rightarrow> string \<Rightarrow> exn + image" where
  "render_layer_combination e self_psd color_name =
     render_layer_combination_fixed e self_psd color_name"

section \<open>Variant generation and the processing run\<close>

record variant =
  filename :: string
  path :: string
  color :: string
  metalware :: string
  dimensions :: "int \<times> int"
  file_size :: nat
  image_hash :: string
  file_hash :: string

record processor =
  base_filename :: string
  output_dir :: string

text \<open>
  The loop of \<^verbatim>\<open>generate_variants\<close> over the valid colour names. A colour
  whose render or whose saving raises is logged and left out; so is one whose
  image has a side of at most 1.
\<close>

fun variants_loop ::
  "env \<Rightarrow> processor \<Rightarrow> layer list \<Rightarrow> string list \<Rightarrow> variant list \<Rightarrow> variant list"
where
  "variants_loop e pr self_psd [] variants = variants"
| "variants_loop e pr self_psd (c # rest) variants =
     (case render_layer_combination e self_psd c of
        Inl x \<Rightarrow> variants_loop e pr self_psd rest variants
      | Inr variant_image \<Rightarrow>
          if img_width variant_image \<le> 1 \<or> img_height variant_image \<le> 1
          then variants_loop e pr self_psd rest variants
          else
            (let output_filename = base_filename pr @ ''-'' @ c @ ''-metalware_1.jpg'';
                 output_path = output_dir pr @ ''/'' @ output_filename
             in
             case save_variant e output_path variant_image of
               Inl x \<Rightarrow> variants_loop e pr self_psd rest variants
             | Inr s \<Rightarrow>
                 variants_loop e pr self_psd rest
                   (variants @
                    [\<lparr>filename = output_filename, path = output_path, color = c,
                      metalware = ''metalware'',
                      dimensions = (img_width variant_image, img_height variant_image),
                      file_size = saved_file_size s, image_hash = saved_image_hash s,
                      file_hash = saved_file_hash s\<rparr>])))"

text \<open>
  \<^verbatim>\<open>_check_duplicate_variants\<close> only logs, but with more than one variant it
  opens the first saved file outside any \<^verbatim>\<open>try\<close>.
\<close>

definition check_duplicate_variants :: "env \<Rightarrow> variant list \<Rightarrow> exn + unit" where
  "check_duplicate_variants e variants =
     (if length variants > 1 then reopen_saved e (path (hd variants)) else Inr ())"

text \<open>
  \<^verbatim>\<open>generate_variants\<close>; \<^verbatim>\<open>self.psd\<close> is \<^verbatim>\<open>None\<close> before loading, and
  a document without layers is falsy as well.
\<close>

definition generate_variants :: "env \<Rightarrow> processor \<Rightarrow> document option \<Rightarrow> exn + variant list" where
  "generate_variants e pr self_psd =
     (case self_psd of
        None \<Rightarrow> Inr []
      | Some psd \<Rightarrow>
          if doc_layers psd = [] then Inr []
          else
            (let names = valid_color_names (doc_layers psd) in
             if names = [] then Inr []
             else
               (let variants = variants_loop e pr (doc_layers psd) names [] in
                case check_duplicate_variants e variants of
                  Inl x \<Rightarrow> Inl x
                | Inr u \<Rightarrow> Inr variants)))"

text \<open>\<^verbatim>\<open>load_psd\<close>: the verdict and the value of \<^verbatim>\<open>self.psd\<close> afterwards.\<close>

definition load_psd :: "env \<Rightarrow> bool \<times> document option" where
  "load_psd e =
     (case open_psd e of
        Inl x \<Rightarrow> (False, None)
      | Inr psd \<Rightarrow>
          if fst (validate_psd_structure (doc_layers psd)) then (True, Some psd)
          else (False, Some psd))"

definition process :: "env \<Rightarrow> processor \<Rightarrow> bool \<times> variant list" where
  "process e pr =
     (case load_psd e of
        (False, self_psd) \<Rightarrow> (False, [])
      | (True, self_psd) \<Rightarrow>
          (case generate_variants e pr self_psd of
             Inl x \<Rightarrow> (False, [])
           | Inr variants \<Rightarrow> if variants = [] then (False, []) else (True, variants)))"

section \<open>Notions used to state the properties\<close>

text \<open>The name under which a layer is matched: lower-cased, then trimmed.\<close>

definition norm_name :: "layer \<Rightarrow> string" where
  "norm_name l = strip (lower (name l))"

text \<open>The elements of a list in the order of their first appearance.\<close>

fun first_appearance :: "'a list \<Rightarrow> 'a list" where
  "first_appearance [] = []"
| "first_appearance (x # xs) = x # first_appearance (filter (\<lambda>y. y \<noteq> x) xs)"

text \<open>
  One pass of the loop of \<^verbatim>\<open>generate_variants\<close> as a value: the entry the
  colour contributes, if any.
\<close>

definition variant_for :: "env \<Rightarrow> processor \<Rightarrow> layer list \<Rightarrow> string \<Rightarrow> variant option" where
  "variant_for e pr self_psd c =
     (case render_layer_combination e self_psd c of
        Inl x \<Rightarrow> None
      | Inr variant_image \<Rightarrow>
          if img_width variant_image \<le> 1 \<or> img_height variant_image \<le> 1 then None
          else
            (case save_variant e
                    (output_dir pr @ ''/'' @ base_filename pr @ ''-'' @ c @ ''-metalware_1.jpg'')
                    variant_image of
               Inl x \<Rightarrow> None
             | Inr s \<Rightarrow>
                 Some \<lparr>filename = base_filename pr @ ''-'' @ c @ ''-metalware_1.jpg'',
                       path = output_dir pr @ ''/'' @ base_filename pr @ ''-'' @ c
                                @ ''-metalware_1.jpg'',
                       color = c, metalware = ''metalware'',
                       dimensions = (img_width variant_image, img_height variant_image),
                       file_size = saved_file_size s, image_hash = saved_image_hash s,
                       file_hash = saved_file_hash s\<rparr>))"

text \<open>The document a render works on: the fresh copy with its flags resolved.\<close>

definition resolved :: "layer list \<Rightarrow> document \<Rightarrow> string \<Rightarrow> document" where
  "resolved self_psd psd0 c =
     psd0\<lparr>doc_layers := set_layer_visibility_fixed self_psd (doc_layers psd0) c\<rparr>"

text \<open>
  The placeholder of the last tier, spelled out: 800 by 600, red, with the
  colour name on the first line of text and the verdict of the visibility
  self-check on the second.
\<close>

definition placeholder :: "string \<Rightarrow> bool \<Rightarrow> font \<Rightarrow> image" where
  "placeholder c passed f =
     \<lparr>img_mode = ''RGB'', img_width = 800, img_height = 600,
      img_backing = Blank (255, 0, 0),
      img_ops = [DrawText (10, 10) (''Render failed for: '' @ c) f,
                 DrawText (10, 50)
                   (''Validation: '' @ (if passed then ''PASSED'' else ''FAILED'')) f]\<rparr>"

text \<open>
  What a colour contributes when the test on the dimensions of the rendered
  image is left out of the loop.
\<close>

definition variant_without_size_check ::
  "env \<Rightarrow> processor \<Rightarrow> layer list \<Rightarrow> string \<Rightarrow> variant option"
where
  "variant_without_size_check e pr self_psd c =
     (case render_layer_combination e self_psd c of
        Inl x \<Rightarrow> None
      | Inr variant_image \<Rightarrow>
          (case save_variant e
                  (output_dir pr @ ''/'' @ base_filename pr @ ''-'' @ c @ ''-metalware_1.jpg'')
                  variant_image of
             Inl x \<Rightarrow> None
           | Inr s \<Rightarrow>
               Some \<lparr>filename = base_filename pr @ ''-'' @ c @ ''-metalware_1.jpg'',
                     path = output_dir pr @ ''/'' @ base_filename pr @ ''-'' @ c
                              @ ''-metalware_1.jpg'',
                     color = c, metalware = ''metalware'',
                     dimensions = (img_width variant_image, img_height variant_image),
                     file_size = saved_file_size s, image_hash = saved_image_hash s,
                     file_hash = saved_file_hash s\<rparr>))"

text \<open>
  What the manual flatten draws for one layer, if anything: a layer whose own
  flag is set and for which the parser yields an image is pasted at its offset;
  an image with an alpha channel has that channel scaled by the opacity when
  the opacity is below 1, and is pasted through its own alpha.
\<close>

definition layer_paste :: "env \<Rightarrow> layer \<Rightarrow> draw_op option" where
  "layer_paste e layer =
     (if visible layer then
        (case topil e layer of
           Inr (Some img) \<Rightarrow>
             (let scaled = (if opacity layer < 1 \<and> li_mode img = ''RGBA''
                            then img\<lparr>li_alpha_scale := Some (opacity layer)\<rparr> else img);
                  box = (fst (offset layer), snd (offset layer),
                         fst (offset layer) + li_width img, snd (offset layer) + li_height img)
              in Some (Paste scaled box (if li_mode img = ''RGBA'' then Some scaled else None)))
         | _ \<Rightarrow> None)
      else None)"

text \<open>
  The colour-named direct children of a top-level group that are visible once
  the resolver has run for a target colour.
\<close>

definition visible_color_children :: "layer list \<Rightarrow> string \<Rightarrow> string \<Rightarrow> layer list" where
  "visible_color_children psd t g =
     (case get_group_by_name (set_layer_visibility_fixed psd psd t) g of
        None \<Rightarrow> []
      | Some m \<Rightarrow> filter (\<lambda>l. norm_name l \<in> all_colors psd \<and> visible l) (children m))"

text \<open>
  The drawing calls of the manual flatten in the order the specification
  words it: the layers walked in the reverse of the stored order.
\<close>

definition stated_flatten_ops :: "env \<Rightarrow> document \<Rightarrow> draw_op list" where
  "stated_flatten_ops e psd =
     List.map_filter (layer_paste e) (rev (descendants (doc_layers psd)))"

section \<open>Example documents\<close>

text \<open>
  A document with the five required groups. The camera group lists blue, red
  and green, the other two groups red and blue, so green is not a valid colour
  and the camera order differs from the order of the other groups. The
  \<^verbatim>\<open>@main\<close> group has no metalware layer.
\<close>

definition ex_layers :: "layer list" where
  "ex_layers =
     [Group ''bg'' False 1 (0, 0) [PixelLayer ''backdrop'' False 1 (0, 0)],
      Group ''base'' True 1 (0, 0)
        [Group ''red'' True 1 (0, 0) [PixelLayer ''R1'' False 1 (0, 0)],
         Group ''blue'' True 1 (0, 0) [PixelLayer ''B1'' True 1 (0, 0)]],
      Group ''colors'' True 1 (0, 0)
        [PixelLayer ''Red'' True 1 (0, 0), PixelLayer ''Blue '' True 1 (0, 0)],
      Group ''camera'' True 1 (0, 0)
        [PixelLayer ''blue'' True 1 (0, 0), PixelLayer ''red'' True 1 (0, 0),
         PixelLayer ''green'' True 1 (0, 0)],
      Group ''@main'' True 1 (0, 0) [PixelLayer ''steel'' True 1 (0, 0)]]"

definition ex_doc :: document where
  "ex_doc = \<lparr>doc_width = 640, doc_height = 480, doc_layers = ex_layers\<rparr>"

text \<open>
  Collaborators that always succeed: the native composite returns a 640 by 480
  image with an alpha channel, and every file is saved.
\<close>

definition native_image :: image where
  "native_image = \<lparr>img_mode = ''RGBA'', img_width = 640, img_height = 480,
                    img_backing = Composited 0, img_ops = []\<rparr>"

definition ex_saved :: saved where
  "ex_saved = \<lparr>saved_file_size = 1024, saved_image_hash = ''ih'', saved_file_hash = ''fh''\<rparr>"

definition ex_env :: env where
  "ex_env = \<lparr>open_psd = Inr ex_doc, open_fresh = Inr ex_doc,
              composite = (\<lambda>d. Inr (Some native_image)),
              image_new_error = (\<lambda>sz. None),
              topil = (\<lambda>l. Inr None),
              truetype_arial = False,
              save_variant = (\<lambda>p im. Inr ex_saved),
              reopen_saved = (\<lambda>p. Inr ())\<rparr>"

definition ex_processor :: processor where
  "ex_processor = \<lparr>base_filename = ''ring'', output_dir = ''out''\<rparr>"

definition ex_variant :: "string \<Rightarrow> variant" where
  "ex_variant c =
     \<lparr>filename = ''ring-'' @ c @ ''-metalware_1.jpg'',
      path = ''out/ring-'' @ c @ ''-metalware_1.jpg'', color = c,
      metalware = ''metalware'', dimensions = (640, 480), file_size = 1024,
      image_hash = ''ih'', file_hash = ''fh''\<rparr>"

text \<open>
  A run in which everything succeeds except the opening of the first saved
  file in the duplicate check.
\<close>

definition reopen_fail_env :: env where
  "reopen_fail_env =
     ex_env\<lparr>reopen_saved := (\<lambda>p. Inl (Raised ''cannot open the saved file''))\<rparr>"

text \<open>
  A run in which the native composite raises and the document measures 1 by
  1, so that the manual flatten is degenerate as well.
\<close>

definition tiny_doc :: document where
  "tiny_doc = \<lparr>doc_width = 1, doc_height = 1, doc_layers = ex_layers\<rparr>"

definition fail_env :: env where
  "fail_env = ex_env\<lparr>open_fresh := Inr tiny_doc,
                      composite := (\<lambda>d. Inl (Raised ''composite failed''))\<rparr>"

text \<open>
  A document whose \<^verbatim>\<open>base\<close> group holds two layers with the same colour
  name once lower-cased and trimmed.
\<close>

definition dup_layers :: "layer list" where
  "dup_layers =
     [Group ''bg'' True 1 (0, 0) [PixelLayer ''backdrop'' True 1 (0, 0)],
      Group ''base'' True 1 (0, 0)
        [PixelLayer ''red'' True 1 (0, 0), PixelLayer ''Red '' False 1 (0, 0)],
      Group ''colors'' True 1 (0, 0) [PixelLayer ''red'' True 1 (0, 0)],
      Group ''camera'' True 1 (0, 0) [PixelLayer ''red'' True 1 (0, 0)],
      Group ''@main'' True 1 (0, 0) [PixelLayer ''metalware'' True 1 (0, 0)]]"

text \<open>
  The first document again, with a blank after the name of the blue group of
  \<^verbatim>\<open>base\<close>.
\<close>

definition ws_layers :: "layer list" where
  "ws_layers =
     [Group ''bg'' False 1 (0, 0) [PixelLayer ''backdrop'' False 1 (0, 0)],
      Group ''base'' True 1 (0, 0)
        [Group ''red'' True 1 (0, 0) [PixelLayer ''R1'' False 1 (0, 0)],
         Group ''blue '' True 1 (0, 0) [PixelLayer ''B1'' True 1 (0, 0)]],
      Group ''colors'' True 1 (0, 0)
        [PixelLayer ''Red'' True 1 (0, 0), PixelLayer ''Blue '' True 1 (0, 0)],
      Group ''camera'' True 1 (0, 0)
        [PixelLayer ''blue'' True 1 (0, 0), PixelLayer ''red'' True 1 (0, 0),
         PixelLayer ''green'' True 1 (0, 0)],
      Group ''@main'' True 1 (0, 0) [PixelLayer ''steel'' True 1 (0, 0)]]"

text \<open>
  A document of two visible pixel layers, the second half transparent and with
  an alpha channel, and collaborators for which the native composite yields
  nothing.
\<close>

definition img_a :: layer_image where
  "img_a = \<lparr>li_mode = ''RGB'', li_width = 10, li_height = 10, li_pixels = 1,
             li_alpha_scale = None\<rparr>"

definition img_b :: layer_image where
  "img_b = \<lparr>li_mode = ''RGBA'', li_width = 4, li_height = 3, li_pixels = 2,
             li_alpha_scale = None\<rparr>"

definition two_layers :: "layer list" where
  "two_layers = [PixelLayer ''A'' True 1 (0, 0), PixelLayer ''B'' True (1 / 2) (5, 7)]"

definition two_doc :: document where
  "two_doc = \<lparr>doc_width = 10, doc_height = 10, doc_layers = two_layers\<rparr>"

definition two_env :: env where
  "two_env = ex_env\<lparr>open_fresh := Inr two_doc,
                     composite := (\<lambda>d. Inr None),
                     topil := (\<lambda>l. if name l = ''A'' then Inr (Some img_a)
                                     else if name l = ''B'' then Inr (Some img_b)
                                     else Inr None)\<rparr>"

definition two_flat :: image where
  "two_flat =
     \<lparr>img_mode = ''RGB'', img_width = 10, img_height = 10,
      img_backing = Blank (255, 255, 255),
      img_ops = [Paste img_a (0, 0, 10, 10) None,
                 Paste (img_b\<lparr>li_alpha_scale := Some (1 / 2)\<rparr>) (5, 7, 9, 10)
                   (Some (img_b\<lparr>li_alpha_scale := Some (1 / 2)\<rparr>))]\<rparr>"

text \<open>
  The first document with its flags resolved for blue, and a run in which the
  native composite succeeds for that one colour only, the document measuring
  1 by 1 as before.
\<close>

definition ex_layers_blue :: "layer list" where
  "ex_layers_blue =
     [Group ''bg'' True 1 (0, 0) [PixelLayer ''backdrop'' True 1 (0, 0)],
      Group ''base'' True 1 (0, 0)
        [Group ''red'' False 1 (0, 0) [PixelLayer ''R1'' False 1 (0, 0)],
         Group ''blue'' True 1 (0, 0) [PixelLayer ''B1'' True 1 (0, 0)]],
      Group ''colors'' True 1 (0, 0)
        [PixelLayer ''Red'' False 1 (0, 0), PixelLayer ''Blue '' True 1 (0, 0)],
      Group ''camera'' True 1 (0, 0)
        [PixelLayer ''blue'' True 1 (0, 0), PixelLayer ''red'' False 1 (0, 0),
         PixelLayer ''green'' False 1 (0, 0)],
      Group ''@main'' True 1 (0, 0) [PixelLayer ''steel'' True 1 (0, 0)]]"

definition mixed_env :: env where
  "mixed_env =
     fail_env\<lparr>composite := (\<lambda>d. if doc_layers d = ex_layers_blue
                                   then Inr (Some native_image)
                                   else Inl (Raised ''composite failed''))\<rparr>"

section \<open>Facts about the string operations\<close>

lemma letters_zip:
  "zip upper_letters lower_letters =
    [
     (CHR 0x41, CHR 0x61), (CHR 0x42, CHR 0x62), (CHR 0x43, CHR 0x63),
     (CHR 0x44, CHR 0x64), (CHR 0x45, CHR 0x65), (CHR 0x46, CHR 0x66),
     (CHR 0x47, CHR 0x67), (CHR 0x48, CHR 0x68), (CHR 0x49, CHR 0x69),
     (CHR 0x4A, CHR 0x6A), (CHR 0x4B, CHR 0x6B), (CHR 0x4C, CHR 0x6C),
     (CHR 0x4D, CHR 0x6D), (CHR 0x4E, CHR 0x6E), (CHR 0x4F, CHR 0x6F),
     (CHR 0x50, CHR 0x70), (CHR 0x51, CHR 0x71), (CHR 0x52, CHR 0x72),
     (CHR 0x53, CHR 0x73), (CHR 0x54, CHR 0x74), (CHR 0x55, CHR 0x75),
     (CHR 0x56, CHR 0x76), (CHR 0x57, CHR 0x77), (CHR 0x58, CHR 0x78),
     (CHR 0x59, CHR 0x79), (CHR 0x5A, CHR 0x7A), (CHR 0xC0, CHR 0xE0),
     (CHR 0xC1, CHR 0xE1), (CHR 0xC2, CHR 0xE2), (CHR 0xC3, CHR 0xE3),
     (CHR 0xC4, CHR 0xE4), (CHR 0xC5, CHR 0xE5), (CHR 0xC6, CHR 0xE6),
     (CHR 0xC7, CHR 0xE7), (CHR 0xC8, CHR 0xE8), (CHR 0xC9, CHR 0xE9),
     (CHR 0xCA, CHR 0xEA), (CHR 0xCB, CHR 0xEB), (CHR 0xCC, CHR 0xEC),
     (CHR 0xCD, CHR 0xED), (CHR 0xCE, CHR 0xEE), (CHR 0xCF, CHR 0xEF),
     (CHR 0xD0, CHR 0xF0), (CHR 0xD1, CHR 0xF1), (CHR 0xD2, CHR 0xF2),
     (CHR 0xD3, CHR 0xF3), (CHR 0xD4, CHR 0xF4), (CHR 0xD5, CHR 0xF5),
     (CHR 0xD6, CHR 0xF6), (CHR 0xD8, CHR 0xF8), (CHR 0xD9, CHR 0xF9),
     (CHR 0xDA, CHR 0xFA), (CHR 0xDB, CHR 0xFB), (CHR 0xDC, CHR 0xFC),
     (CHR 0xDD, CHR 0xFD), (CHR 0xDE, CHR 0xFE)]"
  by (simp add: upper_letters_def lower_letters_def)

lemma letters_length: "length upper_letters = length lower_letters"
  by (simp add: upper_letters_def lower_letters_def)

lemma letters_disjoint: "set upper_letters \<inter> set lower_letters = {}"
  by (simp add: upper_letters_def lower_letters_def)

lemma letters_not_space:
  "c \<in> set upper_letters \<union> set lower_letters \<Longrightarrow> \<not> is_space c"
  by (auto simp: upper_letters_def lower_letters_def is_space_def)

lemma lower_char_cases:
  "(c \<notin> set upper_letters \<and> lower_char c = c)
   \<or> (c \<in> set upper_letters \<and> lower_char c \<in> set lower_letters)"
proof (cases "map_of (zip upper_letters lower_letters) c")
  case None
  then have "c \<notin> set upper_letters"
    using letters_length by (simp add: map_of_zip_is_None)
  with None show ?thesis by (simp add: lower_char_def)
next
  case (Some d)
  then have "(c, d) \<in> set (zip upper_letters lower_letters)" by (rule map_of_SomeD)
  then have "c \<in> set upper_letters" and "d \<in> set lower_letters"
    by (auto dest: set_zip_leftD set_zip_rightD)
  with Some show ?thesis by (simp add: lower_char_def)
qed

lemma lower_char_idem: "lower_char (lower_char c) = lower_char c"
proof -
  have "lower_char d = d" if "d \<in> set lower_letters" for d
    using that lower_char_cases [of d] letters_disjoint by auto
  then show ?thesis using lower_char_cases [of c] by auto
qed

lemma lower_idem: "lower (lower s) = lower s"
  by (simp add: lower_def lower_char_idem)

lemma is_space_lower_char: "is_space (lower_char c) = is_space c"
  using lower_char_cases [of c] letters_not_space [of c] letters_not_space [of "lower_char c"]
  by auto

text \<open>The two character functions on the printable ASCII characters, evaluated.\<close>

lemma lower_char_eval:
  "lower_char (CHR 0x20) = CHR 0x20"
  "lower_char (CHR 0x21) = CHR 0x21"
  "lower_char (CHR 0x22) = CHR 0x22"
  "lower_char (CHR 0x23) = CHR 0x23"
  "lower_char (CHR 0x24) = CHR 0x24"
  "lower_char (CHR 0x25) = CHR 0x25"
  "lower_char (CHR 0x26) = CHR 0x26"
  "lower_char (CHR 0x27) = CHR 0x27"
  "lower_char (CHR 0x28) = CHR 0x28"
  "lower_char (CHR 0x29) = CHR 0x29"
  "lower_char (CHR 0x2A) = CHR 0x2A"
  "lower_char (CHR 0x2B) = CHR 0x2B"
  "lower_char (CHR 0x2C) = CHR 0x2C"
  "lower_char (CHR 0x2D) = CHR 0x2D"
  "lower_char (CHR 0x2E) = CHR 0x2E"
  "lower_char (CHR 0x2F) = CHR 0x2F"
  "lower_char (CHR 0x30) = CHR 0x30"
  "lower_char (CHR 0x31) = CHR 0x31"
  "lower_char (CHR 0x32) = CHR 0x32"
  "lower_char (CHR 0x33) = CHR 0x33"
  "lower_char (CHR 0x34) = CHR 0x34"
  "lower_char (CHR 0x35) = CHR 0x35"
  "lower_char (CHR 0x36) = CHR 0x36"
  "lower_char (CHR 0x37) = CHR 0x37"
  "lower_char (CHR 0x38) = CHR 0x38"
  "lower_char (CHR 0x39) = CHR 0x39"
  "lower_char (CHR 0x3A) = CHR 0x3A"
  "lower_char (CHR 0x3B) = CHR 0x3B"
  "lower_char (CHR 0x3C) = CHR 0x3C"
  "lower_char (CHR 0x3D) = CHR 0x3D"
  "lower_char (CHR 0x3E) = CHR 0x3E"
  "lower_char (CHR 0x3F) = CHR 0x3F"
  "lower_char (CHR 0x40) = CHR 0x40"
  "lower_char (CHR 0x41) = CHR 0x61"
  "lower_char (CHR 0x42) = CHR 0x62"
  "lower_char (CHR 0x43) = CHR 0x63"
  "lower_char (CHR 0x44) = CHR 0x64"
  "lower_char (CHR 0x45) = CHR 0x65"
  "lower_char (CHR 0x46) = CHR 0x66"
  "lower_char (CHR 0x47) = CHR 0x67"
  "lower_char (CHR 0x48) = CHR 0x68"
  "lower_char (CHR 0x49) = CHR 0x69"
  "lower_char (CHR 0x4A) = CHR 0x6A"
  "lower_char (CHR 0x4B) = CHR 0x6B"
  "lower_char (CHR 0x4C) = CHR 0x6C"
  "lower_char (CHR 0x4D) = CHR 0x6D"
  "lower_char (CHR 0x4E) = CHR 0x6E"
  "lower_char (CHR 0x4F) = CHR 0x6F"
  "lower_char (CHR 0x50) = CHR 0x70"
  "lower_char (CHR 0x51) = CHR 0x71"
  "lower_char (CHR 0x52) = CHR 0x72"
  "lower_char (CHR 0x53) = CHR 0x73"
  "lower_char (CHR 0x54) = CHR 0x74"
  "lower_char (CHR 0x55) = CHR 0x75"
  "lower_char (CHR 0x56) = CHR 0x76"
  "lower_char (CHR 0x57) = CHR 0x77"
  "lower_char (CHR 0x58) = CHR 0x78"
  "lower_char (CHR 0x59) = CHR 0x79"
  "lower_char (CHR 0x5A) = CHR 0x7A"
  "lower_char (CHR 0x5B) = CHR 0x5B"
  "lower_char (CHR 0x5C) = CHR 0x5C"
  "lower_char (CHR 0x5D) = CHR 0x5D"
  "lower_char (CHR 0x5E) = CHR 0x5E"
  "lower_char (CHR 0x5F) = CHR 0x5F"
  "lower_char (CHR 0x60) = CHR 0x60"
  "lower_char (CHR 0x61) = CHR 0x61"
  "lower_char (CHR 0x62) = CHR 0x62"
  "lower_char (CHR 0x63) = CHR 0x63"
  "lower_char (CHR 0x64) = CHR 0x64"
  "lower_char (CHR 0x65) = CHR 0x65"
  "lower_char (CHR 0x66) = CHR 0x66"
  "lower_char (CHR 0x67) = CHR 0x67"
  "lower_char (CHR 0x68) = CHR 0x68"
  "lower_char (CHR 0x69) = CHR 0x69"
  "lower_char (CHR 0x6A) = CHR 0x6A"
  "lower_char (CHR 0x6B) = CHR 0x6B"
  "lower_char (CHR 0x6C) = CHR 0x6C"
  "lower_char (CHR 0x6D) = CHR 0x6D"
  "lower_char (CHR 0x6E) = CHR 0x6E"
  "lower_char (CHR 0x6F) = CHR 0x6F"
  "lower_char (CHR 0x70) = CHR 0x70"
  "lower_char (CHR 0x71) = CHR 0x71"
  "lower_char (CHR 0x72) = CHR 0x72"
  "lower_char (CHR 0x73) = CHR 0x73"
  "lower_char (CHR 0x74) = CHR 0x74"
  "lower_char (CHR 0x75) = CHR 0x75"
  "lower_char (CHR 0x76) = CHR 0x76"
  "lower_char (CHR 0x77) = CHR 0x77"
  "lower_char (CHR 0x78) = CHR 0x78"
  "lower_char (CHR 0x79) = CHR 0x79"
  "lower_char (CHR 0x7A) = CHR 0x7A"
  "lower_char (CHR 0x7B) = CHR 0x7B"
  "lower_char (CHR 0x7C) = CHR 0x7C"
  "lower_char (CHR 0x7D) = CHR 0x7D"
  "lower_char (CHR 0x7E) = CHR 0x7E"
  by (simp_all add: lower_char_def letters_zip)

lemma is_space_eval:
  "is_space (CHR 0x20) = True"
  "is_space (CHR 0x21) = False"
  "is_space (CHR 0x22) = False"
  "is_space (CHR 0x23) = False"
  "is_space (CHR 0x24) = False"
  "is_space (CHR 0x25) = False"
  "is_space (CHR 0x26) = False"
  "is_space (CHR 0x27) = False"
  "is_space (CHR 0x28) = False"
  "is_space (CHR 0x29) = False"
  "is_space (CHR 0x2A) = False"
  "is_space (CHR 0x2B) = False"
  "is_space (CHR 0x2C) = False"
  "is_space (CHR 0x2D) = False"
  "is_space (CHR 0x2E) = False"
  "is_space (CHR 0x2F) = False"
  "is_space (CHR 0x30) = False"
  "is_space (CHR 0x31) = False"
  "is_space (CHR 0x32) = False"
  "is_space (CHR 0x33) = False"
  "is_space (CHR 0x34) = False"
  "is_space (CHR 0x35) = False"
  "is_space (CHR 0x36) = False"
  "is_space (CHR 0x37) = False"
  "is_space (CHR 0x38) = False"
  "is_space (CHR 0x39) = False"
  "is_space (CHR 0x3A) = False"
  "is_space (CHR 0x3B) = False"
  "is_space (CHR 0x3C) = False"
  "is_space (CHR 0x3D) = False"
  "is_space (CHR 0x3E) = False"
  "is_space (CHR 0x3F) = False"
  "is_space (CHR 0x40) = False"
  "is_space (CHR 0x41) = False"
  "is_space (CHR 0x42) = False"
  "is_space (CHR 0x43) = False"
  "is_space (CHR 0x44) = False"
  "is_space (CHR 0x45) = False"
  "is_space (CHR 0x46) = False"
  "is_space (CHR 0x47) = False"
  "is_space (CHR 0x48) = False"
  "is_space (CHR 0x49) = False"
  "is_space (CHR 0x4A) = False"
  "is_space (CHR 0x4B) = False"
  "is_space (CHR 0x4C) = False"
  "is_space (CHR 0x4D) = False"
  "is_space (CHR 0x4E) = False"
  "is_space (CHR 0x4F) = False"
  "is_space (CHR 0x50) = False"
  "is_space (CHR 0x51) = False"
  "is_space (CHR 0x52) = False"
  "is_space (CHR 0x53) = False"
  "is_space (CHR 0x54) = False"
  "is_space (CHR 0x55) = False"
  "is_space (CHR 0x56) = False"
  "is_space (CHR 0x57) = False"
  "is_space (CHR 0x58) = False"
  "is_space (CHR 0x59) = False"
  "is_space (CHR 0x5A) = False"
  "is_space (CHR 0x5B) = False"
  "is_space (CHR 0x5C) = False"
  "is_space (CHR 0x5D) = False"
  "is_space (CHR 0x5E) = False"
  "is_space (CHR 0x5F) = False"
  "is_space (CHR 0x60) = False"
  "is_space (CHR 0x61) = False"
  "is_space (CHR 0x62) = False"
  "is_space (CHR 0x63) = False"
  "is_space (CHR 0x64) = False"
  "is_space (CHR 0x65) = False"
  "is_space (CHR 0x66) = False"
  "is_space (CHR 0x67) = False"
  "is_space (CHR 0x68) = False"
  "is_space (CHR 0x69) = False"
  "is_space (CHR 0x6A) = False"
  "is_space (CHR 0x6B) = False"
  "is_space (CHR 0x6C) = False"
  "is_space (CHR 0x6D) = False"
  "is_space (CHR 0x6E) = False"
  "is_space (CHR 0x6F) = False"
  "is_space (CHR 0x70) = False"
  "is_space (CHR 0x71) = False"
  "is_space (CHR 0x72) = False"
  "is_space (CHR 0x73) = False"
  "is_space (CHR 0x74) = False"
  "is_space (CHR 0x75) = False"
  "is_space (CHR 0x76) = False"
  "is_space (CHR 0x77) = False"
  "is_space (CHR 0x78) = False"
  "is_space (CHR 0x79) = False"
  "is_space (CHR 0x7A) = False"
  "is_space (CHR 0x7B) = False"
  "is_space (CHR 0x7C) = False"
  "is_space (CHR 0x7D) = False"
  "is_space (CHR 0x7E) = False"
  by (simp_all add: is_space_def)

section \<open>Facts about the accessor\<close>

lemma find_is_Some: "(\<exists>y. find P xs = Some y) \<longleftrightarrow> (\<exists>x\<in>set xs. P x)"
  by (induct xs) auto

lemma get_group_by_name_Some:
  "get_group_by_name psd g = Some m \<Longrightarrow> m \<in> set psd \<and> is_group m \<and> name m = g"
  unfolding get_group_by_name_def by (induction psd) (auto split: if_splits)

lemma get_group_by_name_None:
  "get_group_by_name psd g = None \<longleftrightarrow> g \<notin> set (map name (filter is_group psd))"
  unfolding get_group_by_name_def by (auto simp: find_None_iff)

lemma validate_verdict:
  "fst (validate_psd_structure psd) \<longleftrightarrow>
     (\<forall>g \<in> set required_groups. g \<in> set (map name (filter is_group psd)))"
proof (cases "find (\<lambda>g. g \<notin> set (map name (filter is_group psd))) required_groups")
  case None
  then show ?thesis
    unfolding validate_psd_structure_def Let_def
    by (auto simp: find_None_iff split: option.splits)
next
  case (Some g)
  then have "\<exists>x\<in>set required_groups. x \<notin> set (map name (filter is_group psd))"
    using find_is_Some [of "\<lambda>g. g \<notin> set (map name (filter is_group psd))" required_groups]
    by blast
  with Some show ?thesis
    unfolding validate_psd_structure_def Let_def by auto
qed

lemma validated_group_exists:
  assumes "fst (validate_psd_structure psd)" and "g \<in> set required_groups"
  shows "\<exists>m. get_group_by_name psd g = Some m"
proof -
  from assms have "g \<in> set (map name (filter is_group psd))"
    by (simp add: validate_verdict)
  then show ?thesis
    using get_group_by_name_None [of psd g] by (cases "get_group_by_name psd g") auto
qed

lemma norm_name_empty: "name l = [] \<Longrightarrow> norm_name l = []"
  by (simp add: norm_name_def lower_def strip_def)

lemma collect_colors_eq:
  "collect_colors ls acc =
     acc @ first_appearance (filter (\<lambda>c. c \<noteq> [] \<and> c \<notin> set acc) (map norm_name ls))"
proof (induction ls arbitrary: acc)
  case Nil
  then show ?case by simp
next
  case (Cons l ls)
  let ?c = "norm_name l"
  show ?case
  proof (cases "?c \<noteq> [] \<and> ?c \<notin> set acc")
    case True
    then have nm: "name l \<noteq> []" using norm_name_empty by blast
    have pred: "filter (\<lambda>y. y \<noteq> ?c) (filter (\<lambda>c. c \<noteq> [] \<and> c \<notin> set acc) (map norm_name ls))
        = filter (\<lambda>y. y \<noteq> [] \<and> y \<notin> set (acc @ [?c])) (map norm_name ls)"
      unfolding filter_filter by (rule filter_cong) auto
    have "collect_colors (l # ls) acc = collect_colors ls (acc @ [?c])"
      using True nm by (simp add: norm_name_def)
    also have "\<dots> = (acc @ [?c]) @
        first_appearance (filter (\<lambda>y. y \<noteq> [] \<and> y \<notin> set (acc @ [?c])) (map norm_name ls))"
      by (rule Cons.IH)
    also have "\<dots> = acc @ (?c # first_appearance (filter (\<lambda>y. y \<noteq> ?c)
        (filter (\<lambda>c. c \<noteq> [] \<and> c \<notin> set acc) (map norm_name ls))))"
      by (simp only: pred append_assoc append_Cons append_Nil)
    also have "\<dots> = acc @ first_appearance
        (filter (\<lambda>c. c \<noteq> [] \<and> c \<notin> set acc) (map norm_name (l # ls)))"
      using True by simp
    finally show ?thesis .
  next
    case False
    then have "collect_colors (l # ls) acc = collect_colors ls acc"
      by (auto simp: norm_name_def Let_def)
    with False show ?thesis by (auto simp: Cons.IH)
  qed
qed

lemma set_first_appearance: "set (first_appearance xs) = set xs"
  by (induction xs rule: first_appearance.induct) auto

lemma distinct_first_appearance: "distinct (first_appearance xs)"
  by (induction xs rule: first_appearance.induct) (auto simp: set_first_appearance)

lemma distinct_get_layer_colors: "distinct (get_layer_colors psd g)"
  by (simp add: get_layer_colors_def collect_colors_eq distinct_first_appearance
      split: option.splits)

lemma update_fresh: "k \<notin> fst ` set d \<Longrightarrow> AList.update k v d = d @ [(k, v)]"
  by (induction d) auto

lemma color_pairs_loop_distinct:
  "distinct cs \<Longrightarrow> set cs \<inter> fst ` set d = {} \<Longrightarrow>
   color_pairs_loop cs cg bc d = d @ map (\<lambda>c. (c, c \<in> set cg \<and> c \<in> set bc)) cs"
proof (induction cs arbitrary: d)
  case Nil
  then show ?case by simp
next
  case (Cons c cs)
  from Cons.prems have fresh: "c \<notin> fst ` set d" by auto
  have "set cs \<inter> fst ` set (d @ [(c, c \<in> set cg \<and> c \<in> set bc)]) = {}"
    using Cons.prems by auto
  with Cons show ?case
    by (simp add: update_fresh [OF fresh] Let_def)
qed

lemma valid_color_names_eq:
  "valid_color_names psd =
     filter (\<lambda>c. c \<in> set (get_layer_colors psd ''colors'') \<and> c \<in> set (get_layer_colors psd ''base''))
       (get_layer_colors psd ''camera'')"
  unfolding valid_color_names_def validate_color_pairs_def Let_def
  by (simp add: color_pairs_loop_distinct distinct_get_layer_colors filter_map comp_def)

lemma get_layer_colors_eq:
  "get_group_by_name psd g = Some grp \<Longrightarrow>
   get_layer_colors psd g =
     first_appearance (filter (\<lambda>c. c \<noteq> []) (map norm_name (children grp)))"
  by (simp add: get_layer_colors_def collect_colors_eq)

section \<open>Facts about variant generation and rendering\<close>

lemma variants_loop_eq:
  "variants_loop e pr psd cs acc = acc @ List.map_filter (variant_for e pr psd) cs"
proof (induction cs arbitrary: acc)
  case Nil
  then show ?case by simp
next
  case (Cons c cs)
  show ?case
    by (simp add: Cons.IH variant_for_def Let_def split: sum.splits)
qed

lemma variant_for_color: "variant_for e pr psd c = Some v \<Longrightarrow> color v = c"
  by (auto simp: variant_for_def split: sum.splits if_splits)

lemma map_color_map_filter:
  "map color (List.map_filter (variant_for e pr psd) cs) =
     filter (\<lambda>c. variant_for e pr psd c \<noteq> None) cs"
  by (induction cs) (auto simp: variant_for_color split: option.splits)

lemma valid_color_names_Nil: "valid_color_names [] = []"
  by (simp add: valid_color_names_def validate_color_pairs_def get_layer_colors_def
      get_group_by_name_def)

lemma generate_variants_cases:
  assumes "generate_variants e pr (Some doc) = Inr vs"
  shows "vs = List.map_filter (variant_for e pr (doc_layers doc)) (valid_color_names (doc_layers doc))"
  using assms
  by (auto simp: generate_variants_def Let_def variants_loop_eq valid_color_names_Nil
      split: if_splits sum.splits)

lemma generate_variants_colors:
  assumes "generate_variants e pr (Some doc) = Inr vs"
  shows "map color vs = filter (\<lambda>c. variant_for e pr (doc_layers doc) c \<noteq> None)
           (valid_color_names (doc_layers doc))"
  using generate_variants_cases [OF assms] by (simp add: map_color_map_filter)

lemma process_cases:
  "process e pr =
     (case open_psd e of
        Inl x \<Rightarrow> (False, [])
      | Inr doc \<Rightarrow>
          if fst (validate_psd_structure (doc_layers doc))
          then (case generate_variants e pr (Some doc) of
                  Inl x \<Rightarrow> (False, [])
                | Inr vs \<Rightarrow> if vs = [] then (False, []) else (True, vs))
          else (False, []))"
  by (simp add: process_def load_psd_def split: sum.splits)

lemma render_usable:
  assumes "render_layer_combination_fixed e psd c = Inr im"
  shows "1 < img_width im \<and> 1 < img_height im"
  using assms
  unfolding render_layer_combination_fixed_def Let_def native_composite_def manual_flatten_def
    debug_image_def image_new_def draw_def usable_def
  by (auto split: sum.splits option.splits if_splits)

lemma layer_paste_step:
  "flatten_loop e (layer # rest) im =
     flatten_loop e rest (case layer_paste e layer of None \<Rightarrow> im | Some op \<Rightarrow> draw op im)"
  by (simp add: layer_paste_def Let_def split: sum.splits option.splits)

lemma flatten_loop_eq:
  "flatten_loop e ls im = im\<lparr>img_ops := img_ops im @ List.map_filter (layer_paste e) ls\<rparr>"
proof (induction ls arbitrary: im)
  case Nil
  then show ?case by simp
next
  case (Cons layer rest)
  show ?case
    unfolding layer_paste_step Cons.IH
    by (simp add: draw_def split: option.splits)
qed

lemma manual_flatten_eq:
  "manual_flatten e psd =
     (if image_new_error e (doc_width psd, doc_height psd) = None
         \<and> 1 < doc_width psd \<and> 1 < doc_height psd
      then Some \<lparr>img_mode = ''RGB'', img_width = doc_width psd, img_height = doc_height psd,
                 img_backing = Blank (255, 255, 255),
                 img_ops = List.map_filter (layer_paste e) (descendants (doc_layers psd))\<rparr>
      else None)"
  by (simp add: manual_flatten_def image_new_def flatten_loop_eq usable_def Let_def
      split: option.splits)

lemma debug_image_eq:
  "debug_image e c passed =
     (case image_new_error e (800, 600) of
        Some x \<Rightarrow> Inl x
      | None \<Rightarrow> Inr (placeholder c passed (if truetype_arial e then Arial24 else DefaultFont)))"
  by (simp add: debug_image_def image_new_def placeholder_def draw_def Let_def
      split: option.splits)

lemma render_eq:
  "render_layer_combination_fixed e self_psd c =
     (case open_fresh e of
        Inl x \<Rightarrow> Inl x
      | Inr psd0 \<Rightarrow>
          (case native_composite e (resolved self_psd psd0 c) of
             Some im \<Rightarrow>
               Inr (if img_mode im \<noteq> ''RGB''
                    then draw (Convert ''RGB'') (im\<lparr>img_mode := ''RGB''\<rparr>) else im)
           | None \<Rightarrow>
               (case manual_flatten e (resolved self_psd psd0 c) of
                  Some im \<Rightarrow> Inr im
                | None \<Rightarrow>
                    debug_image e c
                      (validate_visibility_settings self_psd
                         (doc_layers (resolved self_psd psd0 c)) c))))"
  by (auto simp: render_layer_combination_fixed_def resolved_def Let_def manual_flatten_eq
      split: sum.splits option.splits)

lemma variant_for_unchecked:
  "variant_for e pr self_psd c = variant_without_size_check e pr self_psd c"
proof (cases "render_layer_combination e self_psd c")
  case (Inl x)
  then show ?thesis by (simp add: variant_for_def variant_without_size_check_def)
next
  case (Inr im)
  then have "1 < img_width im \<and> 1 < img_height im"
    using render_usable [of e self_psd c im] by (simp add: render_layer_combination_def)
  with Inr show ?thesis by (simp add: variant_for_def variant_without_size_check_def)
qed

section \<open>Facts about the visibility resolver\<close>

lemma apply_visibility_overwrites:
  "\<forall>l \<in> set ls. g l = l \<or> g l = set_visible True l \<Longrightarrow>
   apply_visibility C t p (map g ls) = apply_visibility C t p ls"
proof (induction ls)
  case Nil
  then show ?case by simp
next
  case (Cons l ls)
  then have "g l = l \<or> g l = set_visible True l" by simp
  with Cons show ?case by (cases l) auto
qed

lemma set_layer_visibility_fixed_eq:
  "set_layer_visibility_fixed self_psd psd t = apply_visibility (all_colors self_psd) t root_name psd"
  unfolding set_layer_visibility_fixed_def show_containers_def
  by (rule apply_visibility_overwrites) simp

lemma parented_flags:
  "(q, l) \<in> set (parented p (apply_visibility C t p ls)) \<Longrightarrow> visible l = layer_flag C t q (name l)"
  by (induction p ls rule: parented.induct) auto

lemma parented_names:
  "map (\<lambda>(q, l). (q, name l)) (parented p (apply_visibility C t p ls)) =
   map (\<lambda>(q, l). (q, name l)) (parented p ls)"
  by (induction p ls rule: parented.induct) auto

lemma layer_flag_chain:
  "layer_flag C t q n =
     (let P = lower q; N = strip (lower n); T = lower t in
      if P = ''bg'' then True
      else if P \<in> {''base'', ''colors'', ''camera''} then (N = T \<or> N \<notin> C)
      else if P = ''@main'' then (N \<in> C \<longrightarrow> N = T)
      else if P \<in> C then P = T
      else True)"
  unfolding layer_flag_def Let_def by simp


section \<open>The example document, evaluated\<close>

lemma ex_camera: "get_layer_colors ex_layers ''camera'' = [''blue'', ''red'', ''green'']"
  by (simp add: get_layer_colors_def get_group_by_name_def ex_layers_def lower_def
      lower_char_eval strip_def is_space_eval)

lemma ex_colors: "get_layer_colors ex_layers ''colors'' = [''red'', ''blue'']"
  by (simp add: get_layer_colors_def get_group_by_name_def ex_layers_def lower_def
      lower_char_eval strip_def is_space_eval)

lemma ex_base: "get_layer_colors ex_layers ''base'' = [''red'', ''blue'']"
  by (simp add: get_layer_colors_def get_group_by_name_def ex_layers_def lower_def
      lower_char_eval strip_def is_space_eval)

lemma ex_valid: "valid_color_names ex_layers = [''blue'', ''red'']"
  by (simp add: valid_color_names_eq ex_camera ex_colors ex_base)

lemma ex_render:
  "render_layer_combination ex_env self_psd c =
     Inr \<lparr>img_mode = ''RGB'', img_width = 640, img_height = 480,
          img_backing = Composited 0, img_ops = [Convert ''RGB'']\<rparr>"
  by (simp add: render_layer_combination_def render_layer_combination_fixed_def ex_env_def
      native_composite_def native_image_def usable_def draw_def Let_def)

lemma ex_variant_for: "variant_for ex_env ex_processor self_psd c = Some (ex_variant c)"
  by (simp add: variant_for_def ex_render ex_variant_def)
     (simp add: ex_env_def ex_processor_def ex_saved_def)

lemma ex_generate:
  "generate_variants ex_env ex_processor (Some ex_doc) =
     Inr [ex_variant ''blue'', ex_variant ''red'']"
  by (simp add: generate_variants_def ex_doc_def ex_valid variants_loop_eq ex_variant_for
      check_duplicate_variants_def Let_def)
     (simp add: ex_layers_def ex_env_def)

lemma ex_validated: "fst (validate_psd_structure ex_layers)"
  by (simp add: validate_verdict required_groups_def ex_layers_def)

lemma ex_process:
  "process ex_env ex_processor = (True, [ex_variant ''blue'', ex_variant ''red''])"
proof -
  have o: "open_psd ex_env = Inr ex_doc" by (simp add: ex_env_def)
  have v: "fst (validate_psd_structure (doc_layers ex_doc))"
    using ex_validated by (simp add: ex_doc_def)
  show ?thesis by (simp add: process_cases o v ex_generate)
qed

lemma render_reaches_placeholder:
  assumes "open_fresh e = Inr psd0"
    and "native_composite e (resolved self_psd psd0 c) = None"
    and "manual_flatten e (resolved self_psd psd0 c) = None"
    and "image_new_error e (800, 600) = None"
  shows "render_layer_combination_fixed e self_psd c =
     Inr (placeholder c
            (validate_visibility_settings self_psd (doc_layers (resolved self_psd psd0 c)) c)
            (if truetype_arial e then Arial24 else DefaultFont))"
  using assms by (simp add: render_eq debug_image_eq)

lemma ex_all_colors: "all_colors ex_layers = {''blue'', ''red'', ''green''}"
  by (auto simp: all_colors_def ex_camera ex_colors ex_base)

lemma ex_resolved_red:
  "set_layer_visibility_fixed ex_layers ex_layers ''red'' =
     [Group ''bg'' True 1 (0, 0) [PixelLayer ''backdrop'' True 1 (0, 0)],
      Group ''base'' True 1 (0, 0)
        [Group ''red'' True 1 (0, 0) [PixelLayer ''R1'' True 1 (0, 0)],
         Group ''blue'' False 1 (0, 0) [PixelLayer ''B1'' False 1 (0, 0)]],
      Group ''colors'' True 1 (0, 0)
        [PixelLayer ''Red'' True 1 (0, 0), PixelLayer ''Blue '' False 1 (0, 0)],
      Group ''camera'' True 1 (0, 0)
        [PixelLayer ''blue'' False 1 (0, 0), PixelLayer ''red'' True 1 (0, 0),
         PixelLayer ''green'' False 1 (0, 0)],
      Group ''@main'' True 1 (0, 0) [PixelLayer ''steel'' True 1 (0, 0)]]"
  unfolding set_layer_visibility_fixed_eq ex_all_colors
  by (simp add: ex_layers_def root_name_def layer_flag_def lower_def lower_char_eval
      strip_def is_space_eval)

lemma ex_check_red:
  "validate_visibility_settings ex_layers
     (set_layer_visibility_fixed ex_layers ex_layers ''red'') ''red''"
  unfolding ex_resolved_red validate_visibility_settings_def ex_all_colors
  by (simp add: root_name_def lower_def lower_char_eval strip_def is_space_eval)

lemma in_set_map_filter:
  "v \<in> set (List.map_filter f xs) \<longleftrightarrow> (\<exists>x \<in> set xs. f x = Some v)"
  by (induction xs) (auto split: option.splits)

lemma fail_env_facts:
  "open_fresh fail_env = Inr tiny_doc"
  "native_composite fail_env d = None"
  "manual_flatten fail_env (resolved self_psd tiny_doc c) = None"
  "image_new_error fail_env (800, 600) = None"
  "truetype_arial fail_env = False"
  "save_variant fail_env p im = Inr ex_saved"
  "reopen_saved fail_env p = Inr ()"
  by (simp_all add: fail_env_def ex_env_def native_composite_def manual_flatten_eq
      resolved_def tiny_doc_def)

lemma fail_render:
  "render_layer_combination_fixed fail_env self_psd c =
     Inr (placeholder c
            (validate_visibility_settings self_psd (doc_layers (resolved self_psd tiny_doc c)) c)
            DefaultFont)"
  using render_reaches_placeholder [of fail_env tiny_doc self_psd c]
  by (simp add: fail_env_facts)

lemma fail_variant_for:
  "variant_for fail_env ex_processor self_psd c = Some ((ex_variant c)\<lparr>dimensions := (800, 600)\<rparr>)"
  by (simp add: variant_for_def render_layer_combination_def fail_render fail_env_facts)
     (simp add: placeholder_def ex_variant_def ex_processor_def ex_saved_def)

lemma fail_generate:
  "generate_variants fail_env ex_processor (Some ex_doc) =
     Inr [(ex_variant ''blue'')\<lparr>dimensions := (800, 600)\<rparr>,
          (ex_variant ''red'')\<lparr>dimensions := (800, 600)\<rparr>]"
  by (simp add: generate_variants_def ex_doc_def ex_valid variants_loop_eq fail_variant_for
      check_duplicate_variants_def fail_env_facts Let_def)
     (simp add: ex_layers_def)

lemma lower_strip: "lower (strip s) = strip (lower s)"
proof -
  have d: "dropWhile is_space (map lower_char xs) = map lower_char (dropWhile is_space xs)" for xs
    by (simp add: dropWhile_map comp_def is_space_lower_char)
  have "map lower_char (rev (dropWhile is_space (rev (dropWhile is_space s)))) =
        rev (map lower_char (dropWhile is_space (rev (dropWhile is_space s))))"
    by (simp only: rev_map)
  also have "\<dots> = rev (dropWhile is_space (map lower_char (rev (dropWhile is_space s))))"
    by (simp only: d)
  also have "\<dots> = rev (dropWhile is_space (rev (map lower_char (dropWhile is_space s))))"
    by (simp only: rev_map)
  also have "\<dots> = rev (dropWhile is_space (rev (dropWhile is_space (map lower_char s))))"
    by (simp only: d)
  finally show ?thesis
    unfolding lower_def strip_def .
qed

lemma lower_norm: "lower (strip (lower s)) = strip (lower s)"
  by (simp add: lower_strip lower_idem)

lemma get_layer_colors_set:
  "c \<in> set (get_layer_colors psd g) \<Longrightarrow>
   \<exists>m. get_group_by_name psd g = Some m \<and> (\<exists>l \<in> set (children m). norm_name l = c) \<and> c \<noteq> []"
  by (cases "get_group_by_name psd g")
     (auto simp: get_layer_colors_def collect_colors_eq set_first_appearance split: if_splits)

lemma get_layer_colors_lower: "c \<in> set (get_layer_colors psd g) \<Longrightarrow> lower c = c"
  using get_layer_colors_set [of c psd g] by (auto simp: norm_name_def lower_norm)

lemma apply_visibility_top_flags:
  "l \<in> set (apply_visibility C t p ls) \<Longrightarrow> visible l = layer_flag C t p (name l)"
  by (induction C t p ls rule: apply_visibility.induct) auto

lemma apply_visibility_top_names:
  "map name (apply_visibility C t p ls) = map name ls"
  by (induction C t p ls rule: apply_visibility.induct) auto

lemma get_group_by_name_apply:
  "get_group_by_name psd g = Some m \<Longrightarrow>
   \<exists>m'. get_group_by_name (apply_visibility C t p psd) g = Some m'
      \<and> children m' = apply_visibility C t g (children m)"
  unfolding get_group_by_name_def
  by (induction C t p psd rule: apply_visibility.induct) (auto split: if_splits)

lemma count_one:
  "distinct (filter P (map f xs)) \<Longrightarrow> P t \<Longrightarrow> t \<in> f ` set xs \<Longrightarrow>
   length (filter (\<lambda>l. f l = t) xs) = 1"
proof (induction xs)
  case Nil
  then show ?case by simp
next
  case (Cons x xs)
  show ?case
  proof (cases "f x = t")
    case True
    with Cons.prems have "t \<notin> f ` set xs" by auto
    then have "filter (\<lambda>l. f l = t) xs = []" by (auto simp: filter_empty_conv)
    with True show ?thesis by simp
  next
    case False
    with Cons.prems have "distinct (filter P (map f xs))" and "t \<in> f ` set xs"
      by (auto split: if_splits)
    with Cons.IH Cons.prems(2) False show ?thesis by simp
  qed
qed


lemma valid_in_groups:
  assumes "t \<in> set (valid_color_names psd)" and "g \<in> {''base'', ''colors'', ''camera''}"
  shows "t \<in> set (get_layer_colors psd g)"
  using assms by (auto simp: valid_color_names_eq)

lemma dup_colors:
  "get_layer_colors dup_layers ''camera'' = [''red'']"
  "get_layer_colors dup_layers ''colors'' = [''red'']"
  "get_layer_colors dup_layers ''base'' = [''red'']"
  by (simp_all add: get_layer_colors_def get_group_by_name_def dup_layers_def lower_def
      lower_char_eval strip_def is_space_eval)

lemma dup_resolved_base:
  "get_group_by_name (set_layer_visibility_fixed dup_layers dup_layers ''red'') ''base'' =
     Some (Group ''base'' True 1 (0, 0)
             [PixelLayer ''red'' True 1 (0, 0), PixelLayer ''Red '' True 1 (0, 0)])"
  unfolding set_layer_visibility_fixed_eq
  by (simp add: all_colors_def dup_colors)
     (simp add: dup_layers_def root_name_def layer_flag_def get_group_by_name_def lower_def
        lower_char_eval strip_def is_space_eval)

lemma ex_resolved_base:
  "get_group_by_name (set_layer_visibility_fixed ex_layers ex_layers ''red'') ''base'' =
     Some (Group ''base'' True 1 (0, 0)
        [Group ''red'' True 1 (0, 0) [PixelLayer ''R1'' True 1 (0, 0)],
         Group ''blue'' False 1 (0, 0) [PixelLayer ''B1'' False 1 (0, 0)]])"
  unfolding ex_resolved_red by (simp add: get_group_by_name_def)

lemma ws_colors:
  "get_layer_colors ws_layers ''camera'' = [''blue'', ''red'', ''green'']"
  "get_layer_colors ws_layers ''colors'' = [''red'', ''blue'']"
  "get_layer_colors ws_layers ''base'' = [''red'', ''blue'']"
  by (simp_all add: get_layer_colors_def get_group_by_name_def ws_layers_def lower_def
      lower_char_eval strip_def is_space_eval)

lemma ws_all_colors: "all_colors ws_layers = {''blue'', ''red'', ''green''}"
  by (auto simp: all_colors_def ws_colors)

lemma ws_resolved_red:
  "set_layer_visibility_fixed ws_layers ws_layers ''red'' =
     [Group ''bg'' True 1 (0, 0) [PixelLayer ''backdrop'' True 1 (0, 0)],
      Group ''base'' True 1 (0, 0)
        [Group ''red'' True 1 (0, 0) [PixelLayer ''R1'' True 1 (0, 0)],
         Group ''blue '' False 1 (0, 0) [PixelLayer ''B1'' True 1 (0, 0)]],
      Group ''colors'' True 1 (0, 0)
        [PixelLayer ''Red'' True 1 (0, 0), PixelLayer ''Blue '' False 1 (0, 0)],
      Group ''camera'' True 1 (0, 0)
        [PixelLayer ''blue'' False 1 (0, 0), PixelLayer ''red'' True 1 (0, 0),
         PixelLayer ''green'' False 1 (0, 0)],
      Group ''@main'' True 1 (0, 0) [PixelLayer ''steel'' True 1 (0, 0)]]"
  unfolding set_layer_visibility_fixed_eq ws_all_colors
  by (simp add: ws_layers_def root_name_def layer_flag_def lower_def lower_char_eval
      strip_def is_space_eval)

lemma two_resolved: "resolved two_layers two_doc c = two_doc"
proof -
  have "all_colors two_layers = {}"
    by (simp add: all_colors_def get_layer_colors_def get_group_by_name_def two_layers_def)
  then show ?thesis
    by (simp add: resolved_def two_doc_def set_layer_visibility_fixed_eq)
       (simp add: two_layers_def layer_flag_def root_name_def lower_def lower_char_eval)
qed

lemma two_env_facts:
  "open_fresh two_env = Inr two_doc"
  "native_composite two_env d = None"
  "image_new_error two_env sz = None"
  "topil two_env (PixelLayer ''A'' v a off) = Inr (Some img_a)"
  "topil two_env (PixelLayer ''B'' v a off) = Inr (Some img_b)"
  by (simp_all add: two_env_def ex_env_def native_composite_def)

lemma two_pastes:
  "List.map_filter (layer_paste two_env) (descendants (doc_layers two_doc)) = img_ops two_flat"
  by (simp add: two_doc_def two_layers_def layer_paste_def two_env_facts two_flat_def Let_def)
     (simp add: img_a_def img_b_def)

lemma two_manual: "manual_flatten two_env two_doc = Some two_flat"
  unfolding manual_flatten_eq two_pastes
  by (simp add: two_env_facts) (simp add: two_doc_def two_flat_def)

lemma ex_resolved_blue:
  "set_layer_visibility_fixed ex_layers ex_layers ''blue'' = ex_layers_blue"
  unfolding set_layer_visibility_fixed_eq ex_all_colors ex_layers_blue_def
  by (simp add: ex_layers_def root_name_def layer_flag_def lower_def lower_char_eval
      strip_def is_space_eval)

lemma mixed_env_facts:
  "open_fresh mixed_env = Inr tiny_doc"
  "manual_flatten mixed_env (resolved self_psd tiny_doc c) = None"
  "image_new_error mixed_env (800, 600) = None"
  "truetype_arial mixed_env = False"
  "save_variant mixed_env p im = Inr ex_saved"
  by (simp_all add: mixed_env_def fail_env_def ex_env_def manual_flatten_eq
      resolved_def tiny_doc_def)

lemma mixed_native_red:
  "native_composite mixed_env (resolved ex_layers tiny_doc ''red'') = None"
  by (simp add: native_composite_def mixed_env_def resolved_def tiny_doc_def ex_resolved_red)
     (simp add: ex_layers_blue_def)

lemma mixed_native_blue:
  "native_composite mixed_env (resolved ex_layers tiny_doc ''blue'') = Some native_image"
  by (simp add: native_composite_def mixed_env_def resolved_def tiny_doc_def ex_resolved_blue
      usable_def native_image_def)

lemma mixed_variant_blue:
  "variant_for mixed_env ex_processor ex_layers ''blue'' = Some (ex_variant ''blue'')"
  by (simp add: variant_for_def render_layer_combination_def render_eq mixed_env_facts
      mixed_native_blue)
     (simp add: native_image_def draw_def ex_variant_def ex_processor_def ex_saved_def)

lemma reopen_fail_variant_for:
  "variant_for reopen_fail_env ex_processor self_psd c = Some (ex_variant c)"
proof -
  have "render_layer_combination reopen_fail_env self_psd c =
      Inr \<lparr>img_mode = ''RGB'', img_width = 640, img_height = 480,
           img_backing = Composited 0, img_ops = [Convert ''RGB'']\<rparr>"
    by (simp add: render_layer_combination_def render_layer_combination_fixed_def
        reopen_fail_env_def ex_env_def native_composite_def native_image_def usable_def
        draw_def Let_def)
  then show ?thesis
    by (simp add: variant_for_def ex_variant_def)
       (simp add: reopen_fail_env_def ex_env_def ex_processor_def ex_saved_def)
qed

section \<open>Structure validation\<close>

text \<open>
  Claim C7. Structure validation returns false if and only if at least one of
  the five required names \<^verbatim>\<open>@main\<close>, \<^verbatim>\<open>camera\<close>, \<^verbatim>\<open>colors\<close>, \<^verbatim>\<open>base\<close>,
  \<^verbatim>\<open>bg\<close> is not the name of a top-level group, whichever of them are missing.
  When it returns true, the \<^verbatim>\<open>@main\<close> group exists and the only thing logged
  is the metalware warning, which appears exactly when that group has children
  and none of them has a name containing \<^verbatim>\<open>metalware\<close>: a missing metalware
  layer never turns the verdict into false.
\<close>

theorem C7_validate_false_iff_group_missing:
  "(fst (validate_psd_structure psd) = False \<longleftrightarrow>
      (\<exists>g \<in> {''@main'', ''camera'', ''colors'', ''base'', ''bg''}.
         g \<notin> set (map name (filter is_group psd))))
   \<and> (fst (validate_psd_structure psd) \<longrightarrow>
        (\<exists>m. get_group_by_name psd ''@main'' = Some m \<and>
           snd (validate_psd_structure psd) =
             (if children m \<noteq> [] \<and>
                 \<not> list_ex (\<lambda>l. contains ''metalware'' (lower (name l))) (children m)
              then [Warning ''@main group should contain metalware layer''] else [])))"
proof (cases "find (\<lambda>g. g \<notin> set (map name (filter is_group psd))) required_groups")
  case None
  then have all: "\<forall>g \<in> set required_groups. g \<in> set (map name (filter is_group psd))"
    by (simp add: find_None_iff)
  then have "''@main'' \<in> set (map name (filter is_group psd))"
    by (simp add: required_groups_def)
  then obtain m where m: "get_group_by_name psd ''@main'' = Some m"
    using get_group_by_name_None [of psd "''@main''"]
    by (cases "get_group_by_name psd ''@main''") auto
  from None m all show ?thesis
    unfolding validate_psd_structure_def Let_def
    by (auto simp: required_groups_def)
next
  case (Some g)
  then have "\<exists>x\<in>set required_groups. x \<notin> set (map name (filter is_group psd))"
    using find_is_Some [of "\<lambda>g. g \<notin> set (map name (filter is_group psd))" required_groups]
    by blast
  then have "\<exists>g \<in> {''@main'', ''camera'', ''colors'', ''base'', ''bg''}.
         g \<notin> set (map name (filter is_group psd))"
    by (auto simp: required_groups_def)
  with Some show ?thesis
    unfolding validate_psd_structure_def Let_def by simp
qed

theorem C7_witness:
  "fst (validate_psd_structure ex_layers)
   \<and> snd (validate_psd_structure ex_layers) =
       [Warning ''@main group should contain metalware layer'']
   \<and> ''bg'' \<notin> set (map name (filter is_group (tl ex_layers)))
   \<and> fst (validate_psd_structure (tl ex_layers)) = False"
proof -
  have missing: "''bg'' \<notin> set (map name (filter is_group (tl ex_layers)))"
    by (simp add: ex_layers_def)
  then have "\<exists>g \<in> {''@main'', ''camera'', ''colors'', ''base'', ''bg''}.
      g \<notin> set (map name (filter is_group (tl ex_layers)))"
    by blast
  then have rejected: "fst (validate_psd_structure (tl ex_layers)) = False"
    using C7_validate_false_iff_group_missing [of "tl ex_layers"] by blast
  have present: "\<not> (\<exists>g \<in> {''@main'', ''camera'', ''colors'', ''base'', ''bg''}.
      g \<notin> set (map name (filter is_group ex_layers)))"
    by (simp add: ex_layers_def)
  then have accepted: "fst (validate_psd_structure ex_layers)"
    using C7_validate_false_iff_group_missing [of ex_layers] by blast
  have main: "get_group_by_name ex_layers ''@main'' =
      Some (Group ''@main'' True 1 (0, 0) [PixelLayer ''steel'' True 1 (0, 0)])"
    by (simp add: ex_layers_def get_group_by_name_def)
  have "snd (validate_psd_structure ex_layers) =
      [Warning ''@main group should contain metalware layer'']"
    using C7_validate_false_iff_group_missing [of ex_layers] accepted main
    by (simp add: lower_def lower_char_eval)
  with missing rejected accepted show ?thesis by blast
qed

section \<open>Which colours get a variant\<close>

text \<open>
  Claim C2. The colours for which a variant is generated are exactly the colours
  present in all three of the groups \<^verbatim>\<open>camera\<close>, \<^verbatim>\<open>colors\<close> and
  \<^verbatim>\<open>base\<close>: the list of valid colour names has that intersection as its
  set, every variant a run returns has its colour in the intersection (so a
  colour of \<^verbatim>\<open>camera\<close> missing from \<^verbatim>\<open>colors\<close> or \<^verbatim>\<open>base\<close> gets none),
  and when no colour is lost to a failing render or save the colours of the
  variants are the whole intersection.
\<close>

theorem C2_variant_colors_are_intersection:
  "set (valid_color_names (doc_layers doc)) =
      set (get_layer_colors (doc_layers doc) ''camera'')
      \<inter> set (get_layer_colors (doc_layers doc) ''colors'')
      \<inter> set (get_layer_colors (doc_layers doc) ''base'')
   \<and> (generate_variants e pr (Some doc) = Inr vs \<longrightarrow>
        color ` set vs \<subseteq>
          set (get_layer_colors (doc_layers doc) ''camera'')
          \<inter> set (get_layer_colors (doc_layers doc) ''colors'')
          \<inter> set (get_layer_colors (doc_layers doc) ''base'')
        \<and> ((\<forall>c \<in> set (valid_color_names (doc_layers doc)).
               variant_for e pr (doc_layers doc) c \<noteq> None) \<longrightarrow>
             color ` set vs =
               set (get_layer_colors (doc_layers doc) ''camera'')
               \<inter> set (get_layer_colors (doc_layers doc) ''colors'')
               \<inter> set (get_layer_colors (doc_layers doc) ''base'')))"
proof -
  let ?valid = "valid_color_names (doc_layers doc)"
  let ?I = "set (get_layer_colors (doc_layers doc) ''camera'')
      \<inter> set (get_layer_colors (doc_layers doc) ''colors'')
      \<inter> set (get_layer_colors (doc_layers doc) ''base'')"
  have valid: "set ?valid = ?I"
    by (auto simp: valid_color_names_eq)
  have "color ` set vs \<subseteq> ?I \<and>
        ((\<forall>c \<in> set ?valid. variant_for e pr (doc_layers doc) c \<noteq> None) \<longrightarrow> color ` set vs = ?I)"
    if gen: "generate_variants e pr (Some doc) = Inr vs"
  proof -
    have "set (map color vs) =
        {c \<in> set ?valid. variant_for e pr (doc_layers doc) c \<noteq> None}"
      by (simp add: generate_variants_colors [OF gen])
    then have "color ` set vs = {c \<in> set ?valid. variant_for e pr (doc_layers doc) c \<noteq> None}"
      by simp
    with valid show ?thesis by auto
  qed
  with valid show ?thesis by blast
qed

theorem C2_witness:
  "generate_variants ex_env ex_processor (Some ex_doc) =
      Inr [ex_variant ''blue'', ex_variant ''red'']
   \<and> valid_color_names (doc_layers ex_doc) = [''blue'', ''red'']
   \<and> variant_for ex_env ex_processor (doc_layers ex_doc) ''blue'' \<noteq> None
   \<and> variant_for ex_env ex_processor (doc_layers ex_doc) ''red'' \<noteq> None
   \<and> ''green'' \<in> set (get_layer_colors (doc_layers ex_doc) ''camera'')
   \<and> ''green'' \<notin> set (get_layer_colors (doc_layers ex_doc) ''base'')
   \<and> ''green'' \<notin> set (valid_color_names (doc_layers ex_doc))
   \<and> color ` set [ex_variant ''blue'', ex_variant ''red''] = {''blue'', ''red''}
   \<and> set (get_layer_colors (doc_layers ex_doc) ''camera'')
      \<inter> set (get_layer_colors (doc_layers ex_doc) ''colors'')
      \<inter> set (get_layer_colors (doc_layers ex_doc) ''base'') = {''blue'', ''red''}"
proof -
  have layers: "doc_layers ex_doc = ex_layers" by (simp add: ex_doc_def)
  have made: "variant_for ex_env ex_processor (doc_layers ex_doc) ''blue'' \<noteq> None"
    "variant_for ex_env ex_processor (doc_layers ex_doc) ''red'' \<noteq> None"
    by (simp_all add: ex_variant_for)
  have names: "valid_color_names (doc_layers ex_doc) = [''blue'', ''red'']"
    by (simp add: layers ex_valid)
  from made names
  have all: "\<forall>c \<in> set (valid_color_names (doc_layers ex_doc)).
         variant_for ex_env ex_processor (doc_layers ex_doc) c \<noteq> None"
    by simp
  have inter: "set (get_layer_colors (doc_layers ex_doc) ''camera'')
      \<inter> set (get_layer_colors (doc_layers ex_doc) ''colors'')
      \<inter> set (get_layer_colors (doc_layers ex_doc) ''base'') = {''blue'', ''red''}"
    by (auto simp: layers ex_camera ex_colors ex_base)
  have "color ` set [ex_variant ''blue'', ex_variant ''red''] = {''blue'', ''red''}"
    using C2_variant_colors_are_intersection
            [of ex_doc ex_env ex_processor "[ex_variant ''blue'', ex_variant ''red'']"]
          ex_generate all inter
    by simp
  moreover have "''green'' \<notin> set (valid_color_names (doc_layers ex_doc))"
    using C2_variant_colors_are_intersection
            [of ex_doc ex_env ex_processor "[ex_variant ''blue'', ex_variant ''red'']"] inter
    by simp
  ultimately show ?thesis
    using ex_generate made names inter by (simp add: layers ex_camera ex_base)
qed

section \<open>The placeholder tier\<close>

text \<open>
  Claim C5. When the native composite fails or is degenerate and the manual
  flatten fails or is degenerate too, the render step does not raise on that
  account: provided the 800 by 600 canvas itself can be allocated, it returns
  the placeholder, an image of fixed size whose text names the target colour
  and says whether the visibility self-check passed. The remaining colours of
  the batch are still processed: the loop over the colours yields what it had
  so far, then the entry of this colour, of 800 by 600 (none if saving the
  placeholder raises), then what each remaining colour contributes in its own
  pass of the loop.
\<close>

theorem C5_placeholder_instead_of_failure:
  assumes "open_fresh e = Inr psd0"
    and "native_composite e (resolved self_psd psd0 c) = None"
    and "manual_flatten e (resolved self_psd psd0 c) = None"
    and "image_new_error e (800, 600) = None"
  shows "render_layer_combination_fixed e self_psd c =
           Inr (placeholder c
                  (validate_visibility_settings self_psd
                     (doc_layers (resolved self_psd psd0 c)) c)
                  (if truetype_arial e then Arial24 else DefaultFont))
         \<and> variants_loop e pr self_psd (c # rest) acc =
             acc
             @ (case save_variant e
                       (output_dir pr @ ''/'' @ base_filename pr @ ''-'' @ c
                          @ ''-metalware_1.jpg'')
                       (placeholder c
                          (validate_visibility_settings self_psd
                             (doc_layers (resolved self_psd psd0 c)) c)
                          (if truetype_arial e then Arial24 else DefaultFont)) of
                  Inl x \<Rightarrow> []
                | Inr s \<Rightarrow>
                    [\<lparr>filename = base_filename pr @ ''-'' @ c @ ''-metalware_1.jpg'',
                      path = output_dir pr @ ''/'' @ base_filename pr @ ''-'' @ c
                               @ ''-metalware_1.jpg'',
                      color = c, metalware = ''metalware'', dimensions = (800, 600),
                      file_size = saved_file_size s, image_hash = saved_image_hash s,
                      file_hash = saved_file_hash s\<rparr>])
             @ List.map_filter (variant_for e pr self_psd) rest"
proof -
  define f where "f = (if truetype_arial e then Arial24 else DefaultFont)"
  define passed where
    "passed = validate_visibility_settings self_psd (doc_layers (resolved self_psd psd0 c)) c"
  have r: "render_layer_combination_fixed e self_psd c = Inr (placeholder c passed f)"
    using assms unfolding f_def passed_def by (rule render_reaches_placeholder)
  have size: "img_width (placeholder c passed f) = 800" "img_height (placeholder c passed f) = 600"
    by (simp_all add: placeholder_def)
  have entry: "variant_for e pr self_psd c =
      (case save_variant e
              (output_dir pr @ ''/'' @ base_filename pr @ ''-'' @ c @ ''-metalware_1.jpg'')
              (placeholder c passed f) of
         Inl x \<Rightarrow> None
       | Inr s \<Rightarrow>
           Some \<lparr>filename = base_filename pr @ ''-'' @ c @ ''-metalware_1.jpg'',
                 path = output_dir pr @ ''/'' @ base_filename pr @ ''-'' @ c
                          @ ''-metalware_1.jpg'',
                 color = c, metalware = ''metalware'', dimensions = (800, 600),
                 file_size = saved_file_size s, image_hash = saved_image_hash s,
                 file_hash = saved_file_hash s\<rparr>)"
    unfolding variant_for_def render_layer_combination_def r
    by (simp add: size split: sum.splits)
  have "variants_loop e pr self_psd (c # rest) acc =
      acc @ List.map_filter (variant_for e pr self_psd) (c # rest)"
    by (rule variants_loop_eq)
  also have "\<dots> = acc @ (case variant_for e pr self_psd c of None \<Rightarrow> [] | Some v \<Rightarrow> [v])
      @ List.map_filter (variant_for e pr self_psd) rest"
    by (simp split: option.splits)
  finally have loop: "variants_loop e pr self_psd (c # rest) acc =
      acc @ (case variant_for e pr self_psd c of None \<Rightarrow> [] | Some v \<Rightarrow> [v])
      @ List.map_filter (variant_for e pr self_psd) rest" .
  show ?thesis
    unfolding f_def [symmetric] passed_def [symmetric] loop entry
    using r by (simp split: sum.splits)
qed

theorem C5_witness:
  "open_fresh mixed_env = Inr tiny_doc
   \<and> native_composite mixed_env (resolved ex_layers tiny_doc ''red'') = None
   \<and> manual_flatten mixed_env (resolved ex_layers tiny_doc ''red'') = None
   \<and> image_new_error mixed_env (800, 600) = None
   \<and> render_layer_combination_fixed mixed_env ex_layers ''red'' =
        Inr \<lparr>img_mode = ''RGB'', img_width = 800, img_height = 600,
             img_backing = Blank (255, 0, 0),
             img_ops = [DrawText (10, 10) ''Render failed for: red'' DefaultFont,
                        DrawText (10, 50) ''Validation: PASSED'' DefaultFont]\<rparr>
   \<and> variants_loop mixed_env ex_processor ex_layers [''red'', ''blue''] [] =
        [(ex_variant ''red'')\<lparr>dimensions := (800, 600)\<rparr>, ex_variant ''blue'']"
proof -
  have layers: "doc_layers (resolved ex_layers tiny_doc ''red'') =
      set_layer_visibility_fixed ex_layers ex_layers ''red''"
    by (simp add: resolved_def tiny_doc_def)
  note inst = C5_placeholder_instead_of_failure
    [of mixed_env tiny_doc ex_layers "''red''" ex_processor "[''blue'']" "[]",
     OF mixed_env_facts(1) mixed_native_red mixed_env_facts(2) mixed_env_facts(3)]
  from inst have "render_layer_combination_fixed mixed_env ex_layers ''red'' =
      Inr (placeholder ''red'' True DefaultFont)"
    using ex_check_red by (simp add: layers mixed_env_facts)
  then have r: "render_layer_combination_fixed mixed_env ex_layers ''red'' =
        Inr \<lparr>img_mode = ''RGB'', img_width = 800, img_height = 600,
             img_backing = Blank (255, 0, 0),
             img_ops = [DrawText (10, 10) ''Render failed for: red'' DefaultFont,
                        DrawText (10, 50) ''Validation: PASSED'' DefaultFont]\<rparr>"
    by (simp add: placeholder_def)
  from inst have "variants_loop mixed_env ex_processor ex_layers [''red'', ''blue''] [] =
        [(ex_variant ''red'')\<lparr>dimensions := (800, 600)\<rparr>, ex_variant ''blue'']"
    by (simp add: mixed_env_facts mixed_variant_blue)
       (simp add: ex_variant_def ex_processor_def ex_saved_def)
  with r show ?thesis
    using mixed_env_facts(1) mixed_native_red mixed_env_facts(2) mixed_env_facts(3)
    by blast
qed

section \<open>The verdict of a processing run\<close>

text \<open>
  Claim C6 says that \<^verbatim>\<open>process\<close> reports success if and only if at least
  one variant was produced. The duplicate check that ends
  \<^verbatim>\<open>generate_variants\<close> only logs, and opens the files it compares inside
  \<^verbatim>\<open>try\<close>, except the first one: when more than one variant was made,
  \<^verbatim>\<open>Image.open\<close> of the first saved file stands outside any \<^verbatim>\<open>try\<close>.
  Evaluated on a run in which the document loads and validates, both valid
  colours are rendered and saved, and that one call raises: the loop has
  produced two variants, the check raises, so does
  \<^verbatim>\<open>generate_variants\<close>, and \<^verbatim>\<open>process\<close> returns false with the empty
  list. The same run with that call succeeding returns true with the two
  variants.
\<close>

theorem C6_unguarded_reopen_fails_run_with_variants:
  "open_psd reopen_fail_env = Inr ex_doc
   \<and> fst (validate_psd_structure (doc_layers ex_doc))
   \<and> variants_loop reopen_fail_env ex_processor (doc_layers ex_doc)
         (valid_color_names (doc_layers ex_doc)) [] =
       [ex_variant ''blue'', ex_variant ''red'']
   \<and> check_duplicate_variants reopen_fail_env [ex_variant ''blue'', ex_variant ''red''] =
       Inl (Raised ''cannot open the saved file'')
   \<and> generate_variants reopen_fail_env ex_processor (Some ex_doc) =
       Inl (Raised ''cannot open the saved file'')
   \<and> process reopen_fail_env ex_processor = (False, [])
   \<and> process ex_env ex_processor = (True, [ex_variant ''blue'', ex_variant ''red''])"
proof -
  have layers: "doc_layers ex_doc = ex_layers" by (simp add: ex_doc_def)
  have opened: "open_psd reopen_fail_env = Inr ex_doc"
    by (simp add: reopen_fail_env_def ex_env_def)
  have valid: "fst (validate_psd_structure (doc_layers ex_doc))"
    using ex_validated by (simp add: layers)
  have made: "variants_loop reopen_fail_env ex_processor (doc_layers ex_doc)
         (valid_color_names (doc_layers ex_doc)) [] =
       [ex_variant ''blue'', ex_variant ''red'']"
    by (simp add: layers ex_valid variants_loop_eq reopen_fail_variant_for)
  have check: "check_duplicate_variants reopen_fail_env
         [ex_variant ''blue'', ex_variant ''red''] =
       Inl (Raised ''cannot open the saved file'')"
    by (simp add: check_duplicate_variants_def reopen_fail_env_def)
  have "doc_layers ex_doc \<noteq> []" by (simp add: layers ex_layers_def)
  then have gen: "generate_variants reopen_fail_env ex_processor (Some ex_doc) =
       Inl (Raised ''cannot open the saved file'')"
    using made check by (simp add: generate_variants_def Let_def layers ex_valid)
  have run: "process reopen_fail_env ex_processor = (False, [])"
    by (simp add: process_cases opened valid gen)
  from opened valid made check gen run ex_process show ?thesis by simp
qed

section \<open>Rendered images are never degenerate\<close>

text \<open>
  Claim C9. Every image the render step returns has both dimensions above 1,
  on each path that returns, the placeholder included. Therefore the test on
  the dimensions in \<^verbatim>\<open>generate_variants\<close> never fires: the loop computes
  the list it would compute without that test. And a colour whose render ends
  in the placeholder still contributes an entry, of 800 by 600, to the
  variants of the run, as long as saving that image succeeds.
\<close>

theorem C9_rendered_image_never_degenerate:
  "(render_layer_combination_fixed e self_psd c = Inr im \<longrightarrow>
      1 < img_width im \<and> 1 < img_height im)
   \<and> variants_loop e pr self_psd cs acc =
       acc @ List.map_filter (variant_without_size_check e pr self_psd) cs
   \<and> (render_layer_combination_fixed e (doc_layers doc) c' = Inr (placeholder c' passed f) \<longrightarrow>
       save_variant e
         (output_dir pr @ ''/'' @ base_filename pr @ ''-'' @ c' @ ''-metalware_1.jpg'')
         (placeholder c' passed f) = Inr s \<longrightarrow>
       c' \<in> set (valid_color_names (doc_layers doc)) \<longrightarrow>
       generate_variants e pr (Some doc) = Inr vs \<longrightarrow>
       (\<exists>v \<in> set vs. color v = c' \<and> dimensions v = (800, 600)))"
proof -
  have loop: "variants_loop e pr self_psd cs acc =
       acc @ List.map_filter (variant_without_size_check e pr self_psd) cs"
    unfolding variants_loop_eq
    by (simp add: variant_for_unchecked [abs_def])
  have entry: "\<exists>v \<in> set vs. color v = c' \<and> dimensions v = (800, 600)"
    if r: "render_layer_combination_fixed e (doc_layers doc) c' = Inr (placeholder c' passed f)"
      and sv: "save_variant e
         (output_dir pr @ ''/'' @ base_filename pr @ ''-'' @ c' @ ''-metalware_1.jpg'')
         (placeholder c' passed f) = Inr s"
      and valid: "c' \<in> set (valid_color_names (doc_layers doc))"
      and gen: "generate_variants e pr (Some doc) = Inr vs"
  proof -
    obtain v where v: "variant_for e pr (doc_layers doc) c' = Some v"
      and d: "dimensions v = (800, 600)"
      using r sv
      by (simp add: variant_for_unchecked variant_without_size_check_def
          render_layer_combination_def placeholder_def)
    from v have "color v = c'" by (rule variant_for_color)
    moreover from gen v valid have "v \<in> set vs"
      by (auto simp: generate_variants_cases [OF gen] in_set_map_filter)
    ultimately show ?thesis using d by blast
  qed
  from loop entry render_usable [of e self_psd c im] show ?thesis by blast
qed


theorem C9_witness:
  "render_layer_combination_fixed fail_env (doc_layers ex_doc) ''red'' =
      Inr (placeholder ''red'' True DefaultFont)
   \<and> save_variant fail_env
        (output_dir ex_processor @ ''/'' @ base_filename ex_processor @ ''-'' @ ''red''
           @ ''-metalware_1.jpg'')
        (placeholder ''red'' True DefaultFont) = Inr ex_saved
   \<and> ''red'' \<in> set (valid_color_names (doc_layers ex_doc))
   \<and> generate_variants fail_env ex_processor (Some ex_doc) =
        Inr [(ex_variant ''blue'')\<lparr>dimensions := (800, 600)\<rparr>,
             (ex_variant ''red'')\<lparr>dimensions := (800, 600)\<rparr>]
   \<and> 1 < img_width (placeholder ''red'' True DefaultFont)
   \<and> 1 < img_height (placeholder ''red'' True DefaultFont)
   \<and> (\<exists>v \<in> set [(ex_variant ''blue'')\<lparr>dimensions := (800, 600)\<rparr>,
                   (ex_variant ''red'')\<lparr>dimensions := (800, 600)\<rparr>].
         color v = ''red'' \<and> dimensions v = (800, 600))"
proof -
  have layers: "doc_layers ex_doc = ex_layers" by (simp add: ex_doc_def)
  have r: "render_layer_combination_fixed fail_env (doc_layers ex_doc) ''red'' =
      Inr (placeholder ''red'' True DefaultFont)"
    using fail_render [of ex_layers "''red''"] ex_check_red
    by (simp add: layers resolved_def tiny_doc_def)
  have sv: "save_variant fail_env
        (output_dir ex_processor @ ''/'' @ base_filename ex_processor @ ''-'' @ ''red''
           @ ''-metalware_1.jpg'')
        (placeholder ''red'' True DefaultFont) = Inr ex_saved"
    by (rule fail_env_facts)
  have valid: "''red'' \<in> set (valid_color_names (doc_layers ex_doc))"
    by (simp add: layers ex_valid)
  note inst = C9_rendered_image_never_degenerate
    [where e = fail_env and self_psd = "doc_layers ex_doc" and c = "''red''"
       and im = "placeholder ''red'' True DefaultFont" and pr = ex_processor
       and doc = ex_doc and c' = "''red''" and passed = True and f = DefaultFont
       and s = ex_saved
       and vs = "[(ex_variant ''blue'')\<lparr>dimensions := (800, 600)\<rparr>,
                 (ex_variant ''red'')\<lparr>dimensions := (800, 600)\<rparr>]"]
  from inst r have size: "1 < img_width (placeholder ''red'' True DefaultFont)
      \<and> 1 < img_height (placeholder ''red'' True DefaultFont)"
    by blast
  from inst r sv valid fail_generate
  have "\<exists>v \<in> set [(ex_variant ''blue'')\<lparr>dimensions := (800, 600)\<rparr>,
                   (ex_variant ''red'')\<lparr>dimensions := (800, 600)\<rparr>].
         color v = ''red'' \<and> dimensions v = (800, 600)"
    by blast
  with r sv valid fail_generate size show ?thesis by blast
qed

section \<open>The order of the variants\<close>

text \<open>
  Claim C10. The variants a run returns come in the order of the \<^verbatim>\<open>camera\<close>
  group: the colours of the returned variants, in sequence, are the colour
  names of the immediate children of \<^verbatim>\<open>camera\<close> (lower-cased, trimmed,
  empty names dropped, each kept at its first appearance) with the colours
  that got no variant left out. The order inside \<^verbatim>\<open>colors\<close> and \<^verbatim>\<open>base\<close>
  plays no part.
\<close>

theorem C10_variants_follow_camera_order:
  assumes run: "process e pr = (True, vs)" and doc: "open_psd e = Inr doc"
  shows "\<exists>cam. get_group_by_name (doc_layers doc) ''camera'' = Some cam
           \<and> get_layer_colors (doc_layers doc) ''camera'' =
               first_appearance (filter (\<lambda>n. n \<noteq> []) (map norm_name (children cam)))
           \<and> map color vs =
               filter (\<lambda>c. c \<in> color ` set vs)
                 (first_appearance (filter (\<lambda>n. n \<noteq> []) (map norm_name (children cam))))"
proof -
  from run doc have ok: "fst (validate_psd_structure (doc_layers doc))"
    and gen: "generate_variants e pr (Some doc) = Inr vs"
    by (auto simp: process_cases split: if_splits sum.splits)
  from ok obtain cam where cam: "get_group_by_name (doc_layers doc) ''camera'' = Some cam"
    using validated_group_exists [of "doc_layers doc" "''camera''"]
    by (auto simp: required_groups_def)
  let ?camera = "get_layer_colors (doc_layers doc) ''camera''"
  let ?ok = "\<lambda>c. c \<in> set (get_layer_colors (doc_layers doc) ''colors'')
                 \<and> c \<in> set (get_layer_colors (doc_layers doc) ''base'')"
  let ?made = "\<lambda>c. variant_for e pr (doc_layers doc) c \<noteq> None"
  have order: "map color vs = filter (\<lambda>c. ?ok c \<and> ?made c) ?camera"
    by (simp add: generate_variants_colors [OF gen] valid_color_names_eq conj_commute)
  then have "color ` set vs = {c \<in> set ?camera. ?ok c \<and> ?made c}"
    by (metis set_filter set_map)
  then have "filter (\<lambda>c. c \<in> color ` set vs) ?camera = filter (\<lambda>c. ?ok c \<and> ?made c) ?camera"
    by (intro filter_cong) auto
  with order have "map color vs = filter (\<lambda>c. c \<in> color ` set vs) ?camera" by simp
  with cam show ?thesis by (simp add: get_layer_colors_eq [OF cam])
qed

theorem C10_witness:
  "process ex_env ex_processor = (True, [ex_variant ''blue'', ex_variant ''red''])
   \<and> open_psd ex_env = Inr ex_doc
   \<and> get_layer_colors (doc_layers ex_doc) ''camera'' = [''blue'', ''red'', ''green'']
   \<and> get_layer_colors (doc_layers ex_doc) ''colors'' = [''red'', ''blue'']
   \<and> get_layer_colors (doc_layers ex_doc) ''base'' = [''red'', ''blue'']
   \<and> map color [ex_variant ''blue'', ex_variant ''red''] =
       filter (\<lambda>c. c \<in> color ` set [ex_variant ''blue'', ex_variant ''red''])
         [''blue'', ''red'', ''green'']"
proof -
  have o: "open_psd ex_env = Inr ex_doc" by (simp add: ex_env_def)
  have layers: "doc_layers ex_doc = ex_layers" by (simp add: ex_doc_def)
  from C10_variants_follow_camera_order [OF ex_process o]
  have "map color [ex_variant ''blue'', ex_variant ''red''] =
       filter (\<lambda>c. c \<in> color ` set [ex_variant ''blue'', ex_variant ''red''])
         (get_layer_colors (doc_layers ex_doc) ''camera'')"
    by auto
  then show ?thesis
    using ex_process o by (simp only: layers ex_camera ex_colors ex_base)
qed

section \<open>The rule of the visibility resolver\<close>

text \<open>
  Claim C1. For every document and every target colour, after the resolver
  has run each layer of the tree carries the flag that the first matching rule
  of this chain gives, read off the lower-cased name of its immediate parent
  (the document itself for a top-level layer), its own lower-cased and trimmed
  name, and the set of all colour names:
  \<^item> parent \<^verbatim>\<open>bg\<close>: visible;
  \<^item> parent \<^verbatim>\<open>base\<close>, \<^verbatim>\<open>colors\<close> or \<^verbatim>\<open>camera\<close>: visible if its own name is
    the target, hidden if it is another colour name, visible otherwise;
  \<^item> parent \<^verbatim>\<open>@main\<close>: a colour-named layer is visible iff it is the target,
    any other layer is visible;
  \<^item> parent named like a colour: visible iff that colour is the target;
  \<^item> no rule matches: visible.
  The target is compared lower-cased, as the source does; a collected colour
  name is lower-case already. Names and shape of the tree are unchanged, so
  this speaks of every layer of the document.
\<close>

theorem C1_flag_from_parent_priority_chain:
  assumes "(q, l) \<in> set (parented root_name (set_layer_visibility_fixed self_psd psd t))"
  shows "visible l =
     (let P = lower q; N = strip (lower (name l)); T = lower t; C = all_colors self_psd in
      if P = ''bg'' then True
      else if P \<in> {''base'', ''colors'', ''camera''} then (N = T \<or> N \<notin> C)
      else if P = ''@main'' then (N \<in> C \<longrightarrow> N = T)
      else if P \<in> C then P = T
      else True)
     \<and> map (\<lambda>(q, l). (q, name l))
           (parented root_name (set_layer_visibility_fixed self_psd psd t)) =
         map (\<lambda>(q, l). (q, name l)) (parented root_name psd)"
proof -
  have "visible l = layer_flag (all_colors self_psd) t q (name l)"
    using assms unfolding set_layer_visibility_fixed_eq by (rule parented_flags)
  then show ?thesis
    unfolding set_layer_visibility_fixed_eq layer_flag_chain Let_def
    by (simp add: parented_names)
qed

theorem C1_witness:
  "(''blue'', PixelLayer ''B1'' False 1 (0, 0))
      \<in> set (parented root_name (set_layer_visibility_fixed ex_layers ex_layers ''red''))
   \<and> (''colors'', PixelLayer ''Red'' True 1 (0, 0))
      \<in> set (parented root_name (set_layer_visibility_fixed ex_layers ex_layers ''red''))
   \<and> lower ''blue'' \<in> all_colors ex_layers \<and> lower ''blue'' \<noteq> lower ''red''
   \<and> visible (PixelLayer ''B1'' False 1 (0, 0)) = False
   \<and> lower ''colors'' \<in> {''base'', ''colors'', ''camera''}
   \<and> strip (lower ''Red'') = lower ''red''
   \<and> visible (PixelLayer ''Red'' True 1 (0, 0)) = True"
proof -
  have m1: "(''blue'', PixelLayer ''B1'' False 1 (0, 0))
      \<in> set (parented root_name (set_layer_visibility_fixed ex_layers ex_layers ''red''))"
    unfolding ex_resolved_red by (simp add: root_name_def)
  have m2: "(''colors'', PixelLayer ''Red'' True 1 (0, 0))
      \<in> set (parented root_name (set_layer_visibility_fixed ex_layers ex_layers ''red''))"
    unfolding ex_resolved_red by (simp add: root_name_def)
  have names: "lower ''blue'' = ''blue''" "lower ''red'' = ''red''" "lower ''colors'' = ''colors''"
    "strip (lower ''Red'') = ''red''" "strip (lower ''B1'') = ''b1''"
    by (simp_all add: lower_def lower_char_eval strip_def is_space_eval)
  have v1: "visible (PixelLayer ''B1'' False 1 (0, 0)) = False"
    using C1_flag_from_parent_priority_chain [OF m1]
    by (simp add: names ex_all_colors Let_def)
  have v2: "visible (PixelLayer ''Red'' True 1 (0, 0)) = True"
    using C1_flag_from_parent_priority_chain [OF m2]
    by (simp add: names ex_all_colors Let_def)
  from m1 m2 v1 v2 show ?thesis by (simp add: names ex_all_colors)
qed

section \<open>Visible colour layers of the three groups\<close>

text \<open>
  Claim C8, as amended. After the resolver has run for a valid target colour,
  in each of the groups \<^verbatim>\<open>base\<close>, \<^verbatim>\<open>colors\<close> and \<^verbatim>\<open>camera\<close> a direct
  child whose lower-cased, trimmed name is a colour name is visible if and
  only if that name is the target colour, and at least one such child is
  visible. The visible colour-named children are thus the children named as
  the target: exactly one when no two colour-named children of the group share
  a name, and several when the target's name occurs more than once, as the
  document of the counterexample shows.
\<close>

theorem C8_visible_color_children_are_target:
  assumes valid: "t \<in> set (valid_color_names psd)"
    and g: "g \<in> {''base'', ''colors'', ''camera''}"
  shows "\<exists>m. get_group_by_name (set_layer_visibility_fixed psd psd t) g = Some m
     \<and> (\<forall>l \<in> set (children m).
           norm_name l \<in> all_colors psd \<longrightarrow> (visible l \<longleftrightarrow> norm_name l = t))
     \<and> (\<exists>l \<in> set (children m). norm_name l = t \<and> visible l)
     \<and> visible_color_children psd t g = filter (\<lambda>l. norm_name l = t) (children m)
     \<and> (distinct (filter (\<lambda>n. n \<in> all_colors psd) (map norm_name (children m))) \<longrightarrow>
          length (visible_color_children psd t g) = 1)"
proof -
  let ?C = "all_colors psd"
  from valid g have tg: "t \<in> set (get_layer_colors psd g)" by (rule valid_in_groups)
  then have lt: "lower t = t" by (rule get_layer_colors_lower)
  from tg g have tC: "t \<in> ?C" by (auto simp: all_colors_def)
  from tg obtain m0 l0 where m0: "get_group_by_name psd g = Some m0"
    and l0: "l0 \<in> set (children m0)" "norm_name l0 = t"
    using get_layer_colors_set [of t psd g] by blast
  from m0 obtain m where m: "get_group_by_name (set_layer_visibility_fixed psd psd t) g = Some m"
    and cm: "children m = apply_visibility ?C t g (children m0)"
    unfolding set_layer_visibility_fixed_eq
    using get_group_by_name_apply [of psd g m0 ?C t root_name] by blast
  have lg: "lower g \<in> {''base'', ''colors'', ''camera''}" "lower g \<noteq> ''bg''"
    using g by (auto simp: lower_def lower_char_eval)
  have flag: "visible l \<longleftrightarrow> norm_name l = t \<or> norm_name l \<notin> ?C" if "l \<in> set (children m)" for l
  proof -
    from that have "visible l = layer_flag ?C t g (name l)"
      unfolding cm by (rule apply_visibility_top_flags)
    with lg show ?thesis
      by (simp add: layer_flag_chain Let_def lt norm_name_def)
  qed
  then have iff: "\<forall>l \<in> set (children m). norm_name l \<in> ?C \<longrightarrow> (visible l \<longleftrightarrow> norm_name l = t)"
    by simp
  have "name l0 \<in> set (map name (children m))"
    using l0 by (simp add: cm apply_visibility_top_names)
  then obtain l where l: "l \<in> set (children m)" "name l = name l0" by auto
  then have nl: "norm_name l = t" using l0 by (simp add: norm_name_def)
  with l flag have ex: "\<exists>l \<in> set (children m). norm_name l = t \<and> visible l" by blast
  have eq: "visible_color_children psd t g = filter (\<lambda>l. norm_name l = t) (children m)"
    unfolding visible_color_children_def m
    using flag tC by (auto intro: filter_cong)
  have one: "length (visible_color_children psd t g) = 1"
    if "distinct (filter (\<lambda>n. n \<in> ?C) (map norm_name (children m)))"
    unfolding eq using that tC l nl
    by (intro count_one [where P = "\<lambda>n. n \<in> ?C"]) auto
  from m iff ex eq one show ?thesis by blast
qed

theorem C8_counterexample:
  "''red'' \<in> set (valid_color_names dup_layers)
   \<and> visible_color_children dup_layers ''red'' ''base'' =
       [PixelLayer ''red'' True 1 (0, 0), PixelLayer ''Red '' True 1 (0, 0)]
   \<and> length (visible_color_children dup_layers ''red'' ''base'') \<noteq> 1"
proof -
  have "''red'' \<in> set (valid_color_names dup_layers)"
    by (simp add: valid_color_names_eq dup_colors)
  moreover have "visible_color_children dup_layers ''red'' ''base'' =
       [PixelLayer ''red'' True 1 (0, 0), PixelLayer ''Red '' True 1 (0, 0)]"
    unfolding visible_color_children_def dup_resolved_base
    by (simp add: all_colors_def dup_colors norm_name_def lower_def lower_char_eval strip_def
        is_space_eval)
  ultimately show ?thesis by simp
qed

theorem C8_witness:
  "''red'' \<in> set (valid_color_names ex_layers)
   \<and> ''base'' \<in> {''base'', ''colors'', ''camera''}
   \<and> distinct (filter (\<lambda>n. n \<in> all_colors ex_layers)
        (map norm_name [Group ''red'' True 1 (0, 0) [PixelLayer ''R1'' True 1 (0, 0)],
                        Group ''blue'' False 1 (0, 0) [PixelLayer ''B1'' False 1 (0, 0)]]))
   \<and> visible_color_children ex_layers ''red'' ''base'' =
       [Group ''red'' True 1 (0, 0) [PixelLayer ''R1'' True 1 (0, 0)]]
   \<and> length (visible_color_children ex_layers ''red'' ''base'') = 1"
proof -
  let ?kids = "[Group ''red'' True 1 (0, 0) [PixelLayer ''R1'' True 1 (0, 0)],
                Group ''blue'' False 1 (0, 0) [PixelLayer ''B1'' False 1 (0, 0)]]"
  have valid: "''red'' \<in> set (valid_color_names ex_layers)" by (simp add: ex_valid)
  have g: "''base'' \<in> {''base'', ''colors'', ''camera''}" by simp
  have names: "map norm_name ?kids = [''red'', ''blue'']"
    by (simp add: norm_name_def lower_def lower_char_eval strip_def is_space_eval)
  have d: "distinct (filter (\<lambda>n. n \<in> all_colors ex_layers) (map norm_name ?kids))"
    unfolding names by (simp add: ex_all_colors)
  from C8_visible_color_children_are_target [OF valid g]
  have eq: "visible_color_children ex_layers ''red'' ''base'' =
        filter (\<lambda>l. norm_name l = ''red'') ?kids"
    and one: "distinct (filter (\<lambda>n. n \<in> all_colors ex_layers) (map norm_name ?kids)) \<longrightarrow>
        length (visible_color_children ex_layers ''red'' ''base'') = 1"
    by (auto simp: ex_resolved_base)
  from eq have "visible_color_children ex_layers ''red'' ''base'' =
       [Group ''red'' True 1 (0, 0) [PixelLayer ''R1'' True 1 (0, 0)]]"
    by (simp add: norm_name_def lower_def lower_char_eval strip_def is_space_eval)
  with valid g d one show ?thesis by blast
qed

section \<open>Whitespace around the name of a parent\<close>

text \<open>
  Claim C3 says that name matching in the resolver ignores letter case and
  surrounding whitespace for the name of a layer, the name of its parent and
  the target colour alike. The source trims a layer's own name, and the names
  of the top-level groups in its first step, but lower-cases the name of the
  parent without trimming it. Evaluated on two documents that differ by one
  blank after the name of the blue group inside \<^verbatim>\<open>base\<close>, with the same
  colour names and the target red: the group is hidden in both, but its child
  is hidden in the first and left visible in the second.
\<close>

theorem C3_blank_after_parent_name_changes_flags:
  "all_colors ws_layers = all_colors ex_layers
   \<and> map visible (descendants (set_layer_visibility_fixed ex_layers ex_layers ''red'')) =
       [True, True, True, True, True, False, False, True, True, False,
        True, False, True, False, True, True]
   \<and> map visible (descendants (set_layer_visibility_fixed ws_layers ws_layers ''red'')) =
       [True, True, True, True, True, False, True, True, True, False,
        True, False, True, False, True, True]
   \<and> (''blue'', PixelLayer ''B1'' False 1 (0, 0))
        \<in> set (parented root_name (set_layer_visibility_fixed ex_layers ex_layers ''red''))
   \<and> (''blue '', PixelLayer ''B1'' True 1 (0, 0))
        \<in> set (parented root_name (set_layer_visibility_fixed ws_layers ws_layers ''red''))"
  unfolding ws_resolved_red ex_resolved_red
  by (simp add: ws_all_colors ex_all_colors root_name_def)

section \<open>The manual flatten\<close>

text \<open>
  Claim C4, as amended. When the native composite fails or is degenerate, the
  render step takes the result of the manual flatten if there is one. The
  manual flatten starts from an opaque white RGB canvas of the width and
  height of the document; it walks the layers in the order in which the
  depth-first traversal of the parser yields them, a group before its
  children, without reversing it (the source takes that order to be bottom to
  top); for each layer whose own flag is set and for which the parser yields
  an image it scales the alpha channel by the opacity when the image has an
  alpha channel and the opacity is below 1, and pastes the image at the offset
  of the layer, through its own alpha if it has one. The canvas is the result
  when both of its sides exceed 1 and it could be allocated.
\<close>

theorem C4_manual_flatten_walks_stored_order:
  "manual_flatten e psd =
     (if image_new_error e (doc_width psd, doc_height psd) = None
         \<and> 1 < doc_width psd \<and> 1 < doc_height psd
      then Some \<lparr>img_mode = ''RGB'', img_width = doc_width psd, img_height = doc_height psd,
                 img_backing = Blank (255, 255, 255),
                 img_ops = List.map_filter (layer_paste e) (descendants (doc_layers psd))\<rparr>
      else None)
   \<and> (open_fresh e = Inr psd0 \<longrightarrow> native_composite e (resolved self_psd psd0 c) = None \<longrightarrow>
       manual_flatten e (resolved self_psd psd0 c) = Some im \<longrightarrow>
       render_layer_combination_fixed e self_psd c = Inr im)"
proof -
  let ?size = "(doc_width psd, doc_height psd)"
  let ?ops = "List.map_filter (layer_paste e) (descendants (doc_layers psd))"
  let ?canvas = "\<lparr>img_mode = ''RGB'', img_width = doc_width psd, img_height = doc_height psd,
                  img_backing = Blank (255, 255, 255), img_ops = []\<rparr>"
  have flat: "manual_flatten e psd =
     (if image_new_error e ?size = None \<and> 1 < doc_width psd \<and> 1 < doc_height psd
      then Some (?canvas\<lparr>img_ops := ?ops\<rparr>) else None)"
  proof (cases "image_new_error e ?size")
    case None
    then have canvas: "image_new e ''RGB'' ?size (255, 255, 255) = Inr ?canvas"
      by (simp add: image_new_def)
    have walked: "flatten_loop e (descendants (doc_layers psd)) ?canvas =
        ?canvas\<lparr>img_ops := ?ops\<rparr>"
      by (simp add: flatten_loop_eq)
    have "usable (?canvas\<lparr>img_ops := ?ops\<rparr>) \<longleftrightarrow> 1 < doc_width psd \<and> 1 < doc_height psd"
      by (simp add: usable_def)
    with None canvas walked show ?thesis
      by (simp add: manual_flatten_def Let_def)
  next
    case (Some x)
    then show ?thesis by (simp add: manual_flatten_def image_new_def)
  qed
  have link: "render_layer_combination_fixed e self_psd c = Inr im"
    if "open_fresh e = Inr psd0"
      and "native_composite e (resolved self_psd psd0 c) = None"
      and "manual_flatten e (resolved self_psd psd0 c) = Some im"
    using that by (simp add: render_eq)
  from flat link show ?thesis by simp
qed

theorem C4_counterexample:
  "map_option img_ops (manual_flatten two_env two_doc) =
     Some [Paste img_a (0, 0, 10, 10) None,
           Paste (img_b\<lparr>li_alpha_scale := Some (1 / 2)\<rparr>) (5, 7, 9, 10)
             (Some (img_b\<lparr>li_alpha_scale := Some (1 / 2)\<rparr>))]
   \<and> stated_flatten_ops two_env two_doc =
     [Paste (img_b\<lparr>li_alpha_scale := Some (1 / 2)\<rparr>) (5, 7, 9, 10)
        (Some (img_b\<lparr>li_alpha_scale := Some (1 / 2)\<rparr>)),
      Paste img_a (0, 0, 10, 10) None]
   \<and> map_option img_ops (manual_flatten two_env two_doc)
       \<noteq> Some (stated_flatten_ops two_env two_doc)"
proof -
  have code: "map_option img_ops (manual_flatten two_env two_doc) =
     Some [Paste img_a (0, 0, 10, 10) None,
           Paste (img_b\<lparr>li_alpha_scale := Some (1 / 2)\<rparr>) (5, 7, 9, 10)
             (Some (img_b\<lparr>li_alpha_scale := Some (1 / 2)\<rparr>))]"
    by (simp add: two_manual two_flat_def)
  have stated: "stated_flatten_ops two_env two_doc =
     [Paste (img_b\<lparr>li_alpha_scale := Some (1 / 2)\<rparr>) (5, 7, 9, 10)
        (Some (img_b\<lparr>li_alpha_scale := Some (1 / 2)\<rparr>)),
      Paste img_a (0, 0, 10, 10) None]"
    by (simp add: stated_flatten_ops_def two_doc_def two_layers_def layer_paste_def
        two_env_facts Let_def)
       (simp add: img_a_def img_b_def)
  have differ: "img_a \<noteq> img_b\<lparr>li_alpha_scale := Some (1 / 2)\<rparr>"
    by (simp add: img_a_def img_b_def)
  show ?thesis
    unfolding code stated using differ by simp
qed

theorem C4_witness:
  "image_new_error two_env (doc_width two_doc, doc_height two_doc) = None
   \<and> 1 < doc_width two_doc \<and> 1 < doc_height two_doc
   \<and> open_fresh two_env = Inr two_doc
   \<and> native_composite two_env (resolved two_layers two_doc ''red'') = None
   \<and> manual_flatten two_env (resolved two_layers two_doc ''red'') = Some two_flat
   \<and> render_layer_combination_fixed two_env two_layers ''red'' = Inr two_flat"
proof -
  have size: "1 < doc_width two_doc \<and> 1 < doc_height two_doc" by (simp add: two_doc_def)
  have m: "manual_flatten two_env (resolved two_layers two_doc ''red'') = Some two_flat"
    using C4_manual_flatten_walks_stored_order [of two_env two_doc] size two_pastes
    by (simp add: two_resolved two_env_facts) (simp add: two_doc_def two_flat_def)
  have "render_layer_combination_fixed two_env two_layers ''red'' = Inr two_flat"
    using C4_manual_flatten_walks_stored_order
            [of two_env "resolved two_layers two_doc ''red''" two_doc two_layers "''red''" two_flat,
             THEN conjunct2] m
    by (simp add: two_env_facts)
  with size m show ?thesis by (simp add: two_env_facts)
qed

end
